theory Spec2Isabelle
  imports Main "HOL-Library.Sublist"
begin

section \<open>Credential-bound key storage (KeyStorage.cpp)\<close>

text \<open>
  A shallow embedding of \<^verbatim>\<open>KeyStorage.cpp\<close>. A \<^verbatim>\<open>std::string\<close> is a
  \<open>string\<close> (a list of bytes). The collaborators the file calls but does not define
  (the hash, scrypt, the OpenSSL cipher, the hardware key service, the external
  programs, the system property) are the fields of a record that every function of
  the model takes as its first argument. Files, the random source and the state of
  the hardware service form an explicit world that is passed through every call.
\<close>

subsection \<open>Constants of the source\<close>

definition AES_KEY_BYTES :: nat where "AES_KEY_BYTES = 32"
definition GCM_NONCE_BYTES :: nat where "GCM_NONCE_BYTES = 12"
definition GCM_MAC_BYTES :: nat where "GCM_MAC_BYTES = 16"
definition SALT_BYTES :: nat where "SALT_BYTES = 2 ^ 4"
definition SECDISCARDABLE_BYTES :: nat where "SECDISCARDABLE_BYTES = 2 ^ 14"
definition STRETCHED_BYTES :: nat where "STRETCHED_BYTES = 2 ^ 6"
definition AUTH_TIMEOUT :: nat where "AUTH_TIMEOUT = 30"

definition kCurrentVersion :: string where "kCurrentVersion = ''1''"
definition kRmPath :: string where "kRmPath = ''/system/bin/rm''"
definition kStretch_none :: string where "kStretch_none = ''none''"
definition kStretch_nopassword :: string where "kStretch_nopassword = ''nopassword''"
definition kStretchPrefix_scrypt :: string where "kStretchPrefix_scrypt = ''scrypt ''"
definition kHashPrefix_secdiscardable :: string where
  "kHashPrefix_secdiscardable = ''Android secdiscardable SHA512''"
definition kHashPrefix_keygen :: string where
  "kHashPrefix_keygen = ''Android key wrapping key generation SHA512''"
definition kFn_encrypted_key :: string where "kFn_encrypted_key = ''encrypted_key''"
definition kFn_keymaster_key_blob :: string where
  "kFn_keymaster_key_blob = ''keymaster_key_blob''"
definition kFn_keymaster_key_blob_upgraded :: string where
  "kFn_keymaster_key_blob_upgraded = ''keymaster_key_blob_upgraded''"
definition kFn_salt :: string where "kFn_salt = ''salt''"
definition kFn_secdiscardable :: string where "kFn_secdiscardable = ''secdiscardable''"
definition kFn_stretching :: string where "kFn_stretching = ''stretching''"
definition kFn_version :: string where "kFn_version = ''version''"

text \<open>Block size and digest length of SHA-512, from \<^verbatim>\<open>openssl/sha.h\<close>.\<close>

definition SHA512_CBLOCK :: nat where "SHA512_CBLOCK = 128"
definition SHA512_DIGEST_LENGTH :: nat where "SHA512_DIGEST_LENGTH = 64"

subsection \<open>Data\<close>

record KeyAuthentication =
  token :: string
  secret :: string

definition kEmptyAuthentication :: KeyAuthentication where
  "kEmptyAuthentication = \<lparr>token = '''', secret = ''''\<rparr>"

datatype KeyPurpose = ENCRYPT | DECRYPT

datatype ErrorCode = KEY_REQUIRES_UPGRADE | UNKNOWN_ERROR | OTHER_ERROR nat

text \<open>
  A \<^verbatim>\<open>KeymasterOperation\<close> converts to true when it holds an open operation and
  otherwise carries an error code; the default-constructed one carries
  \<^verbatim>\<open>UNKNOWN_ERROR\<close>.
\<close>

datatype 'h KeymasterOperation = Operation 'h | NoOperation ErrorCode

definition KeymasterOperation :: "'h KeymasterOperation" where
  "KeymasterOperation = NoOperation UNKNOWN_ERROR"

datatype km_param =
    AesEncryptionKey nat
  | TAG_BLOCK_MODE_GCM
  | TAG_MIN_MAC_LENGTH nat
  | TAG_MAC_LENGTH nat
  | TAG_PADDING_NONE
  | TAG_APPLICATION_ID string
  | TAG_NO_AUTH_REQUIRED
  | TAG_USER_SECURE_ID nat
  | TAG_USER_AUTH_TYPE_PASSWORD
  | TAG_AUTH_TIMEOUT nat
  | TAG_AUTH_TOKEN string
  | TAG_NONCE string

type_synonym AuthorizationSet = "km_param list"

fun GetTagValue_NONCE :: "AuthorizationSet \<Rightarrow> string option" where
  "GetTagValue_NONCE [] = None"
| "GetTagValue_NONCE (TAG_NONCE n # ps) = Some n"
| "GetTagValue_NONCE (p # ps) = GetTagValue_NONCE ps"

text \<open>
  The file system as the source uses it: the content of each file by path, the
  directories that exist, and the paths on which creating or writing fails.
\<close>

record filesystem =
  files :: "string \<rightharpoonup> string"
  dirs :: "string set"
  unwritable :: "string set"

text \<open>
  The trace lists, in order, the calls made to the collaborators and the
  cryptographic steps taken.
\<close>

datatype event =
    EvMkdir string
  | EvRead string
  | EvWrite string string
  | EvRename string string
  | EvRandom nat
  | EvAppId string string
  | EvEncrypt string string
  | EvDecrypt string string
  | EvKmConnect
  | EvKmGenerateKey AuthorizationSet
  | EvKmBegin KeyPurpose string AuthorizationSet
  | EvKmUpgradeKey string
  | EvKmDeleteKey string
  | EvKmUpdate string
  | EvKmFinish
  | EvExec "string list"

record 'k world =
  fs :: filesystem
  urandom :: string
  keymaster :: 'k
  trace :: "event list"

text \<open>
  The collaborators. \<open>'k\<close> is the state of the hardware key service and \<open>'h\<close> an
  operation handle. A cipher call that returns \<open>None\<close> (or \<open>False\<close>) is one that
  did not return 1.
\<close>

record ('k, 'h) collaborators =
  hardware_bound_policy :: "KeyAuthentication \<Rightarrow> bool"
  sizeof_hw_auth_token_t :: nat
  hw_auth_token_user_id :: "string \<Rightarrow> nat"
  property_get_SCRYPT_PROP :: string
  SHA512 :: "string \<Rightarrow> string"
  parse_scrypt_parameters :: "string \<Rightarrow> (nat \<times> nat \<times> nat) option"
  crypto_scrypt :: "string \<Rightarrow> string \<Rightarrow> nat \<Rightarrow> nat \<Rightarrow> nat \<Rightarrow> nat \<Rightarrow> string option"
  EVP_CIPHER_CTX_new :: bool
  EVP_EncryptInit_ex :: "string \<Rightarrow> string \<Rightarrow> bool"
  EVP_EncryptUpdate :: "string \<Rightarrow> string \<Rightarrow> string \<Rightarrow> string option"
  EVP_EncryptFinal_ex :: "string \<Rightarrow> string \<Rightarrow> string \<Rightarrow> nat option"
  EVP_CTRL_GCM_GET_TAG :: "string \<Rightarrow> string \<Rightarrow> string \<Rightarrow> string option"
  EVP_DecryptInit_ex :: "string \<Rightarrow> string \<Rightarrow> bool"
  EVP_DecryptUpdate :: "string \<Rightarrow> string \<Rightarrow> string \<Rightarrow> string option"
  EVP_CTRL_GCM_SET_TAG :: "string \<Rightarrow> bool"
  EVP_DecryptFinal_ex :: "string \<Rightarrow> string \<Rightarrow> string \<Rightarrow> string \<Rightarrow> nat option"
  km_connect :: "'k \<Rightarrow> bool"
  km_generateKey :: "'k \<Rightarrow> AuthorizationSet \<Rightarrow> string option \<times> 'k"
  km_begin :: "'k \<Rightarrow> KeyPurpose \<Rightarrow> string \<Rightarrow> AuthorizationSet
                \<Rightarrow> ('h KeymasterOperation \<times> AuthorizationSet) \<times> 'k"
  km_upgradeKey :: "'k \<Rightarrow> string \<Rightarrow> AuthorizationSet \<Rightarrow> string option \<times> 'k"
  km_deleteKey :: "'k \<Rightarrow> string \<Rightarrow> bool \<times> 'k"
  km_updateCompletely :: "'k \<Rightarrow> 'h \<Rightarrow> string \<Rightarrow> (bool \<times> string) \<times> 'k"
  km_finish :: "'k \<Rightarrow> 'h \<Rightarrow> string option \<times> 'k"
  ForkExecvp :: "string list \<Rightarrow> filesystem \<Rightarrow> int \<times> filesystem"

text \<open>
  Modelled from the spec: \<^verbatim>\<open>KeyStorage.h\<close>, which declares
  \<^verbatim>\<open>KeyAuthentication::usesKeymaster\<close>, is not part of the sources. The
  specification gives it as: true iff the token is non-empty or policy dictates
  hardware-bound storage even without a token.
\<close>

definition usesKeymaster :: "('k, 'h) collaborators \<Rightarrow> KeyAuthentication \<Rightarrow> bool" where
  "usesKeymaster env auth \<longleftrightarrow> token auth \<noteq> [] \<or> hardware_bound_policy env auth"

subsection \<open>Strings\<close>

text \<open>\<^verbatim>\<open>std::string::resize(n)\<close>: cut to \<open>n\<close> bytes, or pad with NUL bytes.\<close>

definition resize :: "nat \<Rightarrow> string \<Rightarrow> string" where
  "resize n s = take n s @ replicate (n - length s) (CHR 0x00)"

text \<open>Writing \<open>bs\<close> into the buffer \<open>buf\<close> from offset \<open>off\<close>, within its size.\<close>

definition store_at :: "string \<Rightarrow> nat \<Rightarrow> string \<Rightarrow> string" where
  "store_at buf off bs = take off buf @ bs @ drop (off + length bs) buf"

text \<open>Reading a string through an index, where only the characters are in range.\<close>

definition at :: "string \<Rightarrow> nat \<Rightarrow> char option" where
  "at s i = (if i < length s then Some (s ! i) else None)"

text \<open>
  The three-iterator \<^verbatim>\<open>std::equal(first1, last1, first2)\<close>: it walks the first range
  and reads the second through \<open>first2 + i\<close>, stopping at the first difference. The
  second range has no end of its own; \<open>OutOfBounds i\<close> is returned when the walk reads
  index \<open>i\<close> of a string that has no character there.
\<close>

datatype cmp = Equal | Differ | OutOfBounds nat

fun std_equal :: "string \<Rightarrow> string \<Rightarrow> nat \<Rightarrow> cmp" where
  "std_equal [] s i = Equal"
| "std_equal (c # cs) s i =
     (case at s i of
        None \<Rightarrow> OutOfBounds i
      | Some d \<Rightarrow> if c = d then std_equal cs s (Suc i) else Differ)"

subsection \<open>Hashing and stretching\<close>

definition hashWithPrefix :: "('k, 'h) collaborators \<Rightarrow> string \<Rightarrow> string \<Rightarrow> string" where
  "hashWithPrefix env prefix' tohash = SHA512 env (resize SHA512_CBLOCK prefix' @ tohash)"

definition getStretching :: "('k, 'h) collaborators \<Rightarrow> KeyAuthentication \<Rightarrow> string" where
  "getStretching env auth =
     (if \<not> usesKeymaster env auth then kStretch_none
      else if secret auth = [] then kStretch_nopassword
      else [] @ kStretchPrefix_scrypt @ property_get_SCRYPT_PROP env)"

definition stretchingNeedsSalt :: "string \<Rightarrow> bool" where
  "stretchingNeedsSalt stretching \<longleftrightarrow>
     stretching \<noteq> kStretch_nopassword \<and> stretching \<noteq> kStretch_none"

text \<open>
  \<open>stretchSecret\<close> returns the stretched bytes, or \<open>None\<close> where the source returns
  false. With \<^verbatim>\<open>nopassword\<close> a non-empty secret is only logged. A read one past the
  last character of \<^verbatim>\<open>stretching\<close> finds the terminating NUL that the string keeps
  there, which differs from every character of the prefix, so the comparison then
  answers false and the source reports an unknown stretching type.
\<close>

definition stretchSecret ::
  "('k, 'h) collaborators \<Rightarrow> string \<Rightarrow> string \<Rightarrow> string \<Rightarrow> string option" where
  "stretchSecret env stretching secret' salt =
     (if stretching = kStretch_nopassword then Some []
      else if stretching = kStretch_none then Some secret'
      else (case std_equal kStretchPrefix_scrypt stretching 0 of
              Equal \<Rightarrow>
                (case parse_scrypt_parameters env
                        (drop (length kStretchPrefix_scrypt) stretching) of
                   None \<Rightarrow> None
                 | Some (Nf, rf, pf) \<Rightarrow>
                     crypto_scrypt env secret' salt (2 ^ Nf) (2 ^ rf) (2 ^ pf) STRETCHED_BYTES)
            | Differ \<Rightarrow> None
            | OutOfBounds i \<Rightarrow> None))"

subsection \<open>Files, random bytes and the hardware service\<close>

definition emit :: "event \<Rightarrow> 'k world \<Rightarrow> 'k world" where
  "emit e w = w\<lparr>trace := trace w @ [e]\<rparr>"

text \<open>
  \<^verbatim>\<open>mkdir\<close> fails on a path that exists already; reading fails on a file that does
  not exist; writing replaces the content of the file; \<^verbatim>\<open>rename\<close> moves the content
  to the new path.
\<close>

definition mkdir' :: "string \<Rightarrow> 'k world \<Rightarrow> bool \<times> 'k world" where
  "mkdir' d w =
     (if d \<in> dirs (fs w) \<or> files (fs w) d \<noteq> None \<or> d \<in> unwritable (fs w)
      then (False, emit (EvMkdir d) w)
      else (True, emit (EvMkdir d) (w\<lparr>fs := (fs w)\<lparr>dirs := insert d (dirs (fs w))\<rparr>\<rparr>)))"

definition readFileToString :: "string \<Rightarrow> 'k world \<Rightarrow> string option \<times> 'k world" where
  "readFileToString filename w = (files (fs w) filename, emit (EvRead filename) w)"

definition writeStringToFile :: "string \<Rightarrow> string \<Rightarrow> 'k world \<Rightarrow> bool \<times> 'k world" where
  "writeStringToFile payload filename w =
     (if filename \<in> unwritable (fs w) then (False, emit (EvWrite filename payload) w)
      else (True, emit (EvWrite filename payload)
                    (w\<lparr>fs := (fs w)\<lparr>files := (files (fs w))(filename \<mapsto> payload)\<rparr>\<rparr>)))"

definition rename' :: "string \<Rightarrow> string \<Rightarrow> 'k world \<Rightarrow> bool \<times> 'k world" where
  "rename' old new w =
     (case files (fs w) old of
        None \<Rightarrow> (False, emit (EvRename old new) w)
      | Some content \<Rightarrow>
          if new \<in> unwritable (fs w) then (False, emit (EvRename old new) w)
          else (True, emit (EvRename old new)
                        (w\<lparr>fs := (fs w)\<lparr>files := ((files (fs w))(old := None))(new \<mapsto> content)\<rparr>\<rparr>)))"

text \<open>
  Modelled from the spec: \<^verbatim>\<open>ReadRandomBytes\<close> (\<^verbatim>\<open>Utils.cpp\<close>) is not part of the
  sources. It is the secure random byte source: it delivers the next \<open>count\<close> bytes of
  the source, and fails when the source cannot deliver that many.
\<close>

definition ReadRandomBytes :: "nat \<Rightarrow> 'k world \<Rightarrow> string option \<times> 'k world" where
  "ReadRandomBytes count w =
     (if length (urandom w) < count then (None, emit (EvRandom count) (w\<lparr>urandom := []\<rparr>))
      else (Some (take count (urandom w)),
            emit (EvRandom count) (w\<lparr>urandom := drop count (urandom w)\<rparr>)))"

definition readRandomBytesOrLog :: "nat \<Rightarrow> 'k world \<Rightarrow> string option \<times> 'k world" where
  "readRandomBytesOrLog count w = ReadRandomBytes count w"

text \<open>
  The calls to the hardware service. \<open>Keymaster\<close> is the construction of the client
  followed by the test \<^verbatim>\<open>if (!keymaster)\<close>.
\<close>

definition Keymaster :: "('k, 'h) collaborators \<Rightarrow> 'k world \<Rightarrow> bool \<times> 'k world" where
  "Keymaster env w = (km_connect env (keymaster w), emit EvKmConnect w)"

definition keymaster_generateKey ::
  "('k, 'h) collaborators \<Rightarrow> AuthorizationSet \<Rightarrow> 'k world \<Rightarrow> string option \<times> 'k world" where
  "keymaster_generateKey env params w =
     (case km_generateKey env (keymaster w) params of
        (r, k) \<Rightarrow> (r, emit (EvKmGenerateKey params) (w\<lparr>keymaster := k\<rparr>)))"

definition keymaster_begin ::
  "('k, 'h) collaborators \<Rightarrow> KeyPurpose \<Rightarrow> string \<Rightarrow> AuthorizationSet \<Rightarrow> 'k world
     \<Rightarrow> ('h KeymasterOperation \<times> AuthorizationSet) \<times> 'k world" where
  "keymaster_begin env purpose kmKey inParams w =
     (case km_begin env (keymaster w) purpose kmKey inParams of
        (r, k) \<Rightarrow> (r, emit (EvKmBegin purpose kmKey inParams) (w\<lparr>keymaster := k\<rparr>)))"

definition keymaster_upgradeKey ::
  "('k, 'h) collaborators \<Rightarrow> string \<Rightarrow> AuthorizationSet \<Rightarrow> 'k world
     \<Rightarrow> string option \<times> 'k world" where
  "keymaster_upgradeKey env kmKey keyParams w =
     (case km_upgradeKey env (keymaster w) kmKey keyParams of
        (r, k) \<Rightarrow> (r, emit (EvKmUpgradeKey kmKey) (w\<lparr>keymaster := k\<rparr>)))"

definition keymaster_deleteKey ::
  "('k, 'h) collaborators \<Rightarrow> string \<Rightarrow> 'k world \<Rightarrow> bool \<times> 'k world" where
  "keymaster_deleteKey env kmKey w =
     (case km_deleteKey env (keymaster w) kmKey of
        (r, k) \<Rightarrow> (r, emit (EvKmDeleteKey kmKey) (w\<lparr>keymaster := k\<rparr>)))"

text \<open>
  \<open>updateCompletely\<close> answers whether it succeeded together with the bytes it left in
  its output string, which it clears before it streams the input through.
\<close>

definition updateCompletely ::
  "('k, 'h) collaborators \<Rightarrow> 'h \<Rightarrow> string \<Rightarrow> 'k world \<Rightarrow> (bool \<times> string) \<times> 'k world" where
  "updateCompletely env h input w =
     (case km_updateCompletely env (keymaster w) h input of
        (r, k) \<Rightarrow> (r, emit (EvKmUpdate input) (w\<lparr>keymaster := k\<rparr>)))"

definition finish ::
  "('k, 'h) collaborators \<Rightarrow> 'h \<Rightarrow> 'k world \<Rightarrow> string option \<times> 'k world" where
  "finish env h w =
     (case km_finish env (keymaster w) h of
        (r, k) \<Rightarrow> (r, emit EvKmFinish (w\<lparr>keymaster := k\<rparr>)))"

definition fork_execvp ::
  "('k, 'h) collaborators \<Rightarrow> string list \<Rightarrow> 'k world \<Rightarrow> int \<times> 'k world" where
  "fork_execvp env args w =
     (case ForkExecvp env args (fs w) of
        (status, fs') \<Rightarrow> (status, emit (EvExec args) (w\<lparr>fs := fs'\<rparr>)))"

subsection \<open>Parameters for the hardware service\<close>

definition checkSize :: "nat \<Rightarrow> nat \<Rightarrow> bool" where
  "checkSize actual expected \<longleftrightarrow> \<not> actual \<noteq> expected"

definition generateKeymasterKey ::
  "('k, 'h) collaborators \<Rightarrow> KeyAuthentication \<Rightarrow> string \<Rightarrow> 'k world
     \<Rightarrow> string option \<times> 'k world" where
  "generateKeymasterKey env auth appId w =
     (let paramBuilder =
            [AesEncryptionKey (AES_KEY_BYTES * 8), TAG_BLOCK_MODE_GCM,
             TAG_MIN_MAC_LENGTH (GCM_MAC_BYTES * 8), TAG_PADDING_NONE,
             TAG_APPLICATION_ID appId]
      in if token auth = []
         then keymaster_generateKey env (paramBuilder @ [TAG_NO_AUTH_REQUIRED]) w
         else if length (token auth) \<noteq> sizeof_hw_auth_token_t env then (None, w)
         else keymaster_generateKey env
                (paramBuilder @
                 [TAG_USER_SECURE_ID (hw_auth_token_user_id env (token auth)),
                  TAG_USER_AUTH_TYPE_PASSWORD, TAG_AUTH_TIMEOUT AUTH_TIMEOUT]) w)"

definition beginParams :: "KeyAuthentication \<Rightarrow> string \<Rightarrow> AuthorizationSet" where
  "beginParams auth appId =
     [TAG_BLOCK_MODE_GCM, TAG_MAC_LENGTH (GCM_MAC_BYTES * 8), TAG_PADDING_NONE,
      TAG_APPLICATION_ID appId]
     @ (if token auth \<noteq> [] then [TAG_AUTH_TOKEN (token auth)] else [])"

subsection \<open>Opening an operation, with the upgrade loop\<close>

text \<open>
  One pass through the body of \<^verbatim>\<open>for (;;)\<close> in \<^verbatim>\<open>begin\<close>: it ends either in a
  \<^verbatim>\<open>return\<close> (\<open>Inl\<close>, with the value returned) or at the end of the body (\<open>Inr\<close>, with
  the new \<^verbatim>\<open>kmKey\<close>), from where the loop goes round again.
\<close>

definition begin_iteration ::
  "('k, 'h) collaborators \<Rightarrow> string \<Rightarrow> KeyPurpose \<Rightarrow> AuthorizationSet \<Rightarrow> AuthorizationSet
     \<Rightarrow> string \<Rightarrow> 'k world
     \<Rightarrow> (('h KeymasterOperation \<times> AuthorizationSet) \<times> 'k world) + (string \<times> 'k world)"
where
  "begin_iteration env dir purpose keyParams inParams kmKey w =
     (case keymaster_begin env purpose kmKey inParams w of
        ((Operation h, outParams), w1) \<Rightarrow> Inl ((Operation h, outParams), w1)
      | ((NoOperation e, outParams), w1) \<Rightarrow>
          if e \<noteq> KEY_REQUIRES_UPGRADE then Inl ((NoOperation e, outParams), w1)
          else (case keymaster_upgradeKey env kmKey keyParams w1 of
                  (None, w2) \<Rightarrow> Inl ((KeymasterOperation, outParams), w2)
                | (Some newKey, w2) \<Rightarrow>
                    (case writeStringToFile newKey
                            (dir @ ''/'' @ kFn_keymaster_key_blob_upgraded) w2 of
                       (written, w3) \<Rightarrow>
                         if \<not> written then Inl ((KeymasterOperation, outParams), w3)
                         else (case rename' (dir @ ''/'' @ kFn_keymaster_key_blob_upgraded)
                                      (dir @ ''/'' @ kFn_keymaster_key_blob) w3 of
                                 (renamed, w4) \<Rightarrow>
                                   if \<not> renamed
                                   then Inl ((KeymasterOperation, outParams), w4)
                                   else Inr (newKey,
                                             snd (keymaster_deleteKey env kmKey w4))))))"

text \<open>
  The loop. It may run forever, so the function is partial: \<open>None\<close> stands for a run
  that does not return.
\<close>

partial_function (option) begin_loop ::
  "('k, 'h) collaborators \<Rightarrow> string \<Rightarrow> KeyPurpose \<Rightarrow> AuthorizationSet \<Rightarrow> AuthorizationSet
     \<Rightarrow> string \<Rightarrow> 'k world \<Rightarrow> (('h KeymasterOperation \<times> AuthorizationSet) \<times> 'k world) option"
where
  "begin_loop env dir purpose keyParams inParams kmKey w =
     (case begin_iteration env dir purpose keyParams inParams kmKey w of
        Inl returned \<Rightarrow> Some returned
      | Inr (newKey, w') \<Rightarrow> begin_loop env dir purpose keyParams inParams newKey w')"

declare begin_loop.simps [code]

definition begin' ::
  "('k, 'h) collaborators \<Rightarrow> string \<Rightarrow> KeyPurpose \<Rightarrow> AuthorizationSet \<Rightarrow> AuthorizationSet
     \<Rightarrow> 'k world \<Rightarrow> (('h KeymasterOperation \<times> AuthorizationSet) \<times> 'k world) option" where
  "begin' env dir purpose keyParams opParams w =
     (case readFileToString (dir @ ''/'' @ kFn_keymaster_key_blob) w of
        (None, w1) \<Rightarrow> Some ((KeymasterOperation, []), w1)
      | (Some kmKey, w1) \<Rightarrow>
          begin_loop env dir purpose keyParams (keyParams @ opParams) kmKey w1)"

subsection \<open>The binding identifier\<close>

definition generateAppId ::
  "('k, 'h) collaborators \<Rightarrow> KeyAuthentication \<Rightarrow> string \<Rightarrow> string \<Rightarrow> string \<Rightarrow> 'k world
     \<Rightarrow> string option \<times> 'k world" where
  "generateAppId env auth stretching salt secdiscardable w =
     (case stretchSecret env stretching (secret auth) salt of
        None \<Rightarrow> (None, emit (EvAppId stretching salt) w)
      | Some stretched \<Rightarrow>
          (Some (hashWithPrefix env kHashPrefix_secdiscardable secdiscardable @ stretched),
           emit (EvAppId stretching salt) w))"

subsection \<open>Encryption and decryption through the hardware service\<close>

definition encryptWithKeymasterKey ::
  "('k, 'h) collaborators \<Rightarrow> string \<Rightarrow> AuthorizationSet \<Rightarrow> string \<Rightarrow> 'k world
     \<Rightarrow> (string option \<times> 'k world) option" where
  "encryptWithKeymasterKey env dir keyParams message w =
     (case begin' env dir ENCRYPT keyParams [] w of
        None \<Rightarrow> None
      | Some ((NoOperation e, outParams), w1) \<Rightarrow> Some (None, w1)
      | Some ((Operation opHandle, outParams), w1) \<Rightarrow>
          Some (case GetTagValue_NONCE outParams of
                  None \<Rightarrow> (None, w1)
                | Some nonce \<Rightarrow>
                    if \<not> checkSize (length nonce) GCM_NONCE_BYTES then (None, w1)
                    else (case updateCompletely env opHandle message w1 of
                            ((updated, body), w2) \<Rightarrow>
                              if \<not> updated then (None, w2)
                              else (case finish env opHandle w2 of
                                      (None, w3) \<Rightarrow> (None, w3)
                                    | (Some mac, w3) \<Rightarrow>
                                        if \<not> checkSize (length mac) GCM_MAC_BYTES
                                        then (None, w3)
                                        else (Some (nonce @ body @ mac), w3)))))"

text \<open>
  \<^verbatim>\<open>ciphertext.substr(pos)\<close> throws \<^verbatim>\<open>std::out_of_range\<close> when \<open>pos\<close> is beyond the
  size of the string; \<^verbatim>\<open>substr(0, n)\<close> never throws.
\<close>

datatype exception = std_out_of_range

definition substr_from :: "string \<Rightarrow> nat \<Rightarrow> exception + string" where
  "substr_from s pos = (if pos > length s then Inl std_out_of_range else Inr (drop pos s))"

text \<open>
  The decrypting functions write through a pointer of the caller, so they take the
  content of that string before the call (\<open>message\<close>, \<open>plaintext\<close>, \<open>key\<close>) and answer
  with its content after the call, whether they return true or false or throw.
\<close>

definition decryptWithKeymasterKey ::
  "('k, 'h) collaborators \<Rightarrow> string \<Rightarrow> AuthorizationSet \<Rightarrow> string \<Rightarrow> string \<Rightarrow> 'k world
     \<Rightarrow> ((exception + bool) \<times> string \<times> 'k world) option" where
  "decryptWithKeymasterKey env dir keyParams ciphertext message w =
     (let nonce = take GCM_NONCE_BYTES ciphertext in
      case substr_from ciphertext GCM_NONCE_BYTES of
        Inl ex \<Rightarrow> Some (Inl ex, message, w)
      | Inr bodyAndMac \<Rightarrow>
          (case begin' env dir DECRYPT keyParams [TAG_NONCE nonce] w of
             None \<Rightarrow> None
           | Some ((NoOperation e, outParams), w1) \<Rightarrow> Some (Inr False, message, w1)
           | Some ((Operation opHandle, outParams), w1) \<Rightarrow>
               (case updateCompletely env opHandle bodyAndMac w1 of
                  ((updated, output), w2) \<Rightarrow>
                    if \<not> updated then Some (Inr False, output, w2)
                    else (case finish env opHandle w2 of
                            (None, w3) \<Rightarrow> Some (Inr False, output, w3)
                          | (Some mac, w3) \<Rightarrow> Some (Inr True, output, w3)))))"

subsection \<open>Encryption and decryption in software\<close>

text \<open>
  The cipher is keyed with the first 32 bytes of the hash of the binding identifier
  and takes the first 12 bytes of the ciphertext buffer as its nonce. Each cipher call
  is given the key, the nonce and the data the context has seen.
\<close>

definition encryptWithoutKeymaster ::
  "('k, 'h) collaborators \<Rightarrow> string \<Rightarrow> string \<Rightarrow> 'k world \<Rightarrow> string option \<times> 'k world" where
  "encryptWithoutKeymaster env preKey plaintext w =
     (let key = resize AES_KEY_BYTES (hashWithPrefix env kHashPrefix_keygen preKey) in
      case readRandomBytesOrLog GCM_NONCE_BYTES w of
        (None, w1) \<Rightarrow> (None, w1)
      | (Some nonce, w1) \<Rightarrow>
          (let w2 = emit (EvEncrypt preKey plaintext) w1 in
           if \<not> EVP_CIPHER_CTX_new env then (None, w2)
           else if \<not> EVP_EncryptInit_ex env key nonce then (None, w2)
           else (let ciphertext =
                       resize (GCM_NONCE_BYTES + length plaintext + GCM_MAC_BYTES) nonce in
                 case EVP_EncryptUpdate env key nonce plaintext of
                   None \<Rightarrow> (None, w2)
                 | Some body \<Rightarrow>
                     if length body \<noteq> length plaintext then (None, w2)
                     else (case EVP_EncryptFinal_ex env key nonce plaintext of
                             None \<Rightarrow> (None, w2)
                           | Some outlen \<Rightarrow>
                               if outlen \<noteq> 0 then (None, w2)
                               else (case EVP_CTRL_GCM_GET_TAG env key nonce plaintext of
                                       None \<Rightarrow> (None, w2)
                                     | Some tag \<Rightarrow>
                                         (Some (store_at
                                                  (store_at ciphertext GCM_NONCE_BYTES body)
                                                  (GCM_NONCE_BYTES + length plaintext) tag),
                                          w2))))))"

definition decryptWithoutKeymaster ::
  "('k, 'h) collaborators \<Rightarrow> string \<Rightarrow> string \<Rightarrow> string \<Rightarrow> 'k world
     \<Rightarrow> bool \<times> string \<times> 'k world" where
  "decryptWithoutKeymaster env preKey ciphertext plaintext w =
     (if length ciphertext < GCM_NONCE_BYTES + GCM_MAC_BYTES then (False, plaintext, w)
      else
        (let key = resize AES_KEY_BYTES (hashWithPrefix env kHashPrefix_keygen preKey);
             w1 = emit (EvDecrypt preKey ciphertext) w;
             nonce = take GCM_NONCE_BYTES ciphertext
         in if \<not> EVP_CIPHER_CTX_new env then (False, plaintext, w1)
            else if \<not> EVP_DecryptInit_ex env key nonce then (False, plaintext, w1)
            else
              (let size = length ciphertext - GCM_NONCE_BYTES - GCM_MAC_BYTES;
                   resized = resize size plaintext;
                   body = take size (drop GCM_NONCE_BYTES ciphertext);
                   tag = take GCM_MAC_BYTES (drop (GCM_NONCE_BYTES + size) ciphertext)
               in case EVP_DecryptUpdate env key nonce body of
                    None \<Rightarrow> (False, resized, w1)
                  | Some output \<Rightarrow>
                      (let written = store_at resized 0 output in
                       if length output \<noteq> size then (False, written, w1)
                       else if \<not> EVP_CTRL_GCM_SET_TAG env tag then (False, written, w1)
                       else (case EVP_DecryptFinal_ex env key nonce body tag of
                               None \<Rightarrow> (False, written, w1)
                             | Some outlen \<Rightarrow>
                                 if outlen \<noteq> 0 then (False, written, w1)
                                 else (True, written, w1))))))"

subsection \<open>Store, retrieve, destroy\<close>

definition storeKey ::
  "('k, 'h) collaborators \<Rightarrow> string \<Rightarrow> KeyAuthentication \<Rightarrow> string \<Rightarrow> 'k world
     \<Rightarrow> (bool \<times> 'k world) option" where
  "storeKey env dir auth key w =
     (case mkdir' dir w of (made, w1) \<Rightarrow>
      if \<not> made then Some (False, w1) else
      (case writeStringToFile kCurrentVersion (dir @ ''/'' @ kFn_version) w1 of (ok2, w2) \<Rightarrow>
      if \<not> ok2 then Some (False, w2) else
      (case readRandomBytesOrLog SECDISCARDABLE_BYTES w2 of
        (None, w3) \<Rightarrow> Some (False, w3)
      | (Some secdiscardable, w3) \<Rightarrow>
      (case writeStringToFile secdiscardable (dir @ ''/'' @ kFn_secdiscardable) w3 of
        (ok4, w4) \<Rightarrow>
      if \<not> ok4 then Some (False, w4) else
      let stretching = getStretching env auth in
      (case writeStringToFile stretching (dir @ ''/'' @ kFn_stretching) w4 of (ok5, w5) \<Rightarrow>
      if \<not> ok5 then Some (False, w5) else
      (case (if stretchingNeedsSalt stretching
            then (case ReadRandomBytes SALT_BYTES w5 of
                    (None, w6) \<Rightarrow> (None, w6)
                  | (Some salt, w6) \<Rightarrow>
                      (case writeStringToFile salt (dir @ ''/'' @ kFn_salt) w6 of
                         (ok7, w7) \<Rightarrow> if \<not> ok7 then (None, w7) else (Some salt, w7)))
            else (Some [], w5)) of
        (None, w7) \<Rightarrow> Some (False, w7)
      | (Some salt, w7) \<Rightarrow>
      (case generateAppId env auth stretching salt secdiscardable w7 of
        (None, w8) \<Rightarrow> Some (False, w8)
      | (Some appId, w8) \<Rightarrow>
      (case (if usesKeymaster env auth
            then (case Keymaster env w8 of (connected, w9) \<Rightarrow>
                  if \<not> connected then Some (None, w9) else
                  (case generateKeymasterKey env auth appId w9 of
                    (None, w10) \<Rightarrow> Some (None, w10)
                  | (Some kmKey, w10) \<Rightarrow>
                  (case writeStringToFile kmKey (dir @ ''/'' @ kFn_keymaster_key_blob) w10 of
                    (ok11, w11) \<Rightarrow>
                  if \<not> ok11 then Some (None, w11) else
                  encryptWithKeymasterKey env dir (beginParams auth appId) key w11)))
            else Some (encryptWithoutKeymaster env appId key w8)) of
        None \<Rightarrow> None
      | Some (None, w12) \<Rightarrow> Some (False, w12)
      | Some (Some encryptedKey, w12) \<Rightarrow>
      (case writeStringToFile encryptedKey (dir @ ''/'' @ kFn_encrypted_key) w12 of
        (ok13, w13) \<Rightarrow>
      if \<not> ok13 then Some (False, w13) else Some (True, w13))))))))))"

definition retrieveKey ::
  "('k, 'h) collaborators \<Rightarrow> string \<Rightarrow> KeyAuthentication \<Rightarrow> string \<Rightarrow> 'k world
     \<Rightarrow> ((exception + bool) \<times> string \<times> 'k world) option" where
  "retrieveKey env dir auth key w =
     (case readFileToString (dir @ ''/'' @ kFn_version) w of
        (None, w1) \<Rightarrow> Some (Inr False, key, w1)
      | (Some version, w1) \<Rightarrow>
      if version \<noteq> kCurrentVersion then Some (Inr False, key, w1) else
      (case readFileToString (dir @ ''/'' @ kFn_secdiscardable) w1 of
        (None, w2) \<Rightarrow> Some (Inr False, key, w2)
      | (Some secdiscardable, w2) \<Rightarrow>
      (case readFileToString (dir @ ''/'' @ kFn_stretching) w2 of
        (None, w3) \<Rightarrow> Some (Inr False, key, w3)
      | (Some stretching, w3) \<Rightarrow>
      (case (if stretchingNeedsSalt stretching
            then readFileToString (dir @ ''/'' @ kFn_salt) w3
            else (Some [], w3)) of
        (None, w4) \<Rightarrow> Some (Inr False, key, w4)
      | (Some salt, w4) \<Rightarrow>
      (case generateAppId env auth stretching salt secdiscardable w4 of
        (None, w5) \<Rightarrow> Some (Inr False, key, w5)
      | (Some appId, w5) \<Rightarrow>
      (case readFileToString (dir @ ''/'' @ kFn_encrypted_key) w5 of
        (None, w6) \<Rightarrow> Some (Inr False, key, w6)
      | (Some encryptedMessage, w6) \<Rightarrow>
      (if usesKeymaster env auth
       then (case Keymaster env w6 of (connected, w7) \<Rightarrow>
             if \<not> connected then Some (Inr False, key, w7) else
             decryptWithKeymasterKey env dir (beginParams auth appId) encryptedMessage key w7)
       else (case decryptWithoutKeymaster env appId encryptedMessage key w6 of
               (decrypted, key', w7) \<Rightarrow> Some (Inr decrypted, key', w7)))))))))"





subsection \<open>Observing a run\<close>

text \<open>The events that a run from world \<open>w\<close> to world \<open>w'\<close> has added to the trace.\<close>

definition events_since :: "'k world \<Rightarrow> 'k world \<Rightarrow> event list" where
  "events_since w w' = drop (length (trace w)) (trace w')"

fun is_KmBegin :: "event \<Rightarrow> bool" where
  "is_KmBegin (EvKmBegin purpose kmKey inParams) = True"
| "is_KmBegin e = False"

fun is_KmDeleteKey :: "event \<Rightarrow> bool" where
  "is_KmDeleteKey (EvKmDeleteKey kmKey) = True"
| "is_KmDeleteKey e = False"



text \<open>The result of a store, the world it leaves, and the result of a retrieve.\<close>

definition store_status ::
  "('k, 'h) collaborators \<Rightarrow> string \<Rightarrow> KeyAuthentication \<Rightarrow> string \<Rightarrow> 'k world \<Rightarrow> bool option"
  where
  "store_status env dir auth key w = map_option fst (storeKey env dir auth key w)"

definition world_after_store ::
  "('k, 'h) collaborators \<Rightarrow> string \<Rightarrow> KeyAuthentication \<Rightarrow> string \<Rightarrow> 'k world \<Rightarrow> 'k world"
  where
  "world_after_store env dir auth key w =
     (case storeKey env dir auth key w of None \<Rightarrow> w | Some (r, w') \<Rightarrow> w')"

definition retrieve_outcome ::
  "('k, 'h) collaborators \<Rightarrow> string \<Rightarrow> KeyAuthentication \<Rightarrow> string \<Rightarrow> 'k world
     \<Rightarrow> ((exception + bool) \<times> string) option" where
  "retrieve_outcome env dir auth key w =
     map_option (\<lambda>(r, key', w'). (r, key')) (retrieveKey env dir auth key w)"

subsection \<open>What the collaborators are expected to do\<close>

text \<open>The application id that a parameter set carries.\<close>

fun application_id :: "AuthorizationSet \<Rightarrow> string option" where
  "application_id [] = None"
| "application_id (TAG_APPLICATION_ID a # ps) = Some a"
| "application_id (p # ps) = application_id ps"


text \<open>
  The hardware service makes at most \<open>n\<close> consecutive upgrade offers when it is asked
  to begin an operation with \<open>kmKey\<close> in state \<open>k\<close> and every key it offers to
  upgrade is upgraded (and the old one deleted) before it is asked again.
\<close>

fun offers_at_most ::
  "('k, 'h) collaborators \<Rightarrow> KeyPurpose \<Rightarrow> AuthorizationSet \<Rightarrow> AuthorizationSet
     \<Rightarrow> nat \<Rightarrow> string \<Rightarrow> 'k \<Rightarrow> bool" where
  "offers_at_most env purpose keyParams inParams 0 kmKey k =
     (fst (fst (km_begin env k purpose kmKey inParams)) \<noteq> NoOperation KEY_REQUIRES_UPGRADE)"
| "offers_at_most env purpose keyParams inParams (Suc n) kmKey k =
     (case km_begin env k purpose kmKey inParams of
        ((opHandle, outParams), k1) \<Rightarrow>
          if opHandle \<noteq> NoOperation KEY_REQUIRES_UPGRADE then True
          else (case km_upgradeKey env k1 kmKey keyParams of
                  (None, k2) \<Rightarrow> True
                | (Some newKey, k2) \<Rightarrow>
                    offers_at_most env purpose keyParams inParams n newKey
                      (snd (km_deleteKey env k2 kmKey))))"

text \<open>
  The software cipher is correct: the tag has 16 bytes, and decrypting, under the same
  key and nonce, the body and the tag that an encryption produced gives back the
  plaintext and verifies the tag.
\<close>

definition cipher_inverts :: "('k, 'h) collaborators \<Rightarrow> bool" where
  "cipher_inverts env \<longleftrightarrow>
     (\<forall>key nonce plaintext body tag.
        EVP_EncryptUpdate env key nonce plaintext = Some body \<and>
        length body = length plaintext \<and>
        EVP_CTRL_GCM_GET_TAG env key nonce plaintext = Some tag \<longrightarrow>
        length tag = GCM_MAC_BYTES \<and>
        EVP_DecryptInit_ex env key nonce \<and>
        EVP_DecryptUpdate env key nonce body = Some plaintext \<and>
        EVP_CTRL_GCM_SET_TAG env tag \<and>
        EVP_DecryptFinal_ex env key nonce body tag = Some 0)"

text \<open>
  The hardware service is correct: once an encryption under a key blob and parameters
  has run to its end, the service is reachable and a decryption under the same blob,
  the same parameters and the nonce of the encryption, fed the body followed by the
  tag, gives back the message and finishes.
\<close>

definition service_inverts :: "('k, 'h) collaborators \<Rightarrow> bool" where
  "service_inverts env \<longleftrightarrow>
     (\<forall>k0 kmKey params opHandle outParams k1 nonce message body k2 mac k3.
        km_begin env k0 ENCRYPT kmKey params = ((Operation opHandle, outParams), k1) \<and>
        GetTagValue_NONCE outParams = Some nonce \<and>
        km_updateCompletely env k1 opHandle message = ((True, body), k2) \<and>
        km_finish env k2 opHandle = (Some mac, k3) \<longrightarrow>
        km_connect env k3 \<and>
        (\<exists>opHandle' outParams' k4 k5 mac' k6.
           km_begin env k3 DECRYPT kmKey (params @ [TAG_NONCE nonce])
             = ((Operation opHandle', outParams'), k4) \<and>
           km_updateCompletely env k4 opHandle' (body @ mac) = ((True, message), k5) \<and>
           km_finish env k5 opHandle' = (Some mac', k6)))"


text \<open>
  The authentication token and the secure user id that a parameter set carries.
\<close>

fun auth_token :: "AuthorizationSet \<Rightarrow> string option" where
  "auth_token [] = None"
| "auth_token (TAG_AUTH_TOKEN t # ps) = Some t"
| "auth_token (p # ps) = auth_token ps"

fun user_secure_id :: "AuthorizationSet \<Rightarrow> nat option" where
  "user_secure_id [] = None"
| "user_secure_id (TAG_USER_SECURE_ID i # ps) = Some i"
| "user_secure_id (p # ps) = user_secure_id ps"







subsection \<open>A small instance of the collaborators\<close>

text \<open>
  An instance simple enough to run by hand, used to exhibit concrete runs. Its hash
  keeps the last bytes of the message, its cipher leaves the bytes as they are and
  takes the tag from the key, and its key service accepts a blob only with the
  application id the blob was made for. A blob that starts with \<open>o\<close> is an old one
  that has to be upgraded, which strips the \<open>o\<close>.
\<close>

definition sample_SHA512 :: "string \<Rightarrow> string" where
  "sample_SHA512 m = resize SHA512_DIGEST_LENGTH (rev (drop SHA512_CBLOCK m))"

definition sample_generateKey :: "string \<Rightarrow> AuthorizationSet \<Rightarrow> string option \<times> string" where
  "sample_generateKey k params =
     (case application_id params of None \<Rightarrow> (None, k) | Some a \<Rightarrow> (Some (CHR ''K'' # a), k))"

definition sample_begin ::
  "string \<Rightarrow> KeyPurpose \<Rightarrow> string \<Rightarrow> AuthorizationSet
     \<Rightarrow> (KeyPurpose KeymasterOperation \<times> AuthorizationSet) \<times> string" where
  "sample_begin k purpose kmKey inParams =
     (case kmKey of
        [] \<Rightarrow> ((NoOperation (OTHER_ERROR 33), []), k)
      | c # a \<Rightarrow>
          if c = CHR ''o'' then ((NoOperation KEY_REQUIRES_UPGRADE, []), k)
          else if application_id inParams \<noteq> Some a
          then ((NoOperation (OTHER_ERROR 33), []), k)
          else ((Operation purpose,
                 if purpose = ENCRYPT then [TAG_NONCE (replicate 12 (CHR ''n''))] else []), k))"

definition sample_upgradeKey :: "string \<Rightarrow> string \<Rightarrow> AuthorizationSet \<Rightarrow> string option \<times> string"
  where
  "sample_upgradeKey k kmKey keyParams =
     (case kmKey of
        [] \<Rightarrow> (None, k)
      | c # a \<Rightarrow> if c = CHR ''o'' then (Some a, k) else (None, k))"

definition sample_updateCompletely ::
  "string \<Rightarrow> KeyPurpose \<Rightarrow> string \<Rightarrow> (bool \<times> string) \<times> string" where
  "sample_updateCompletely k h input =
     (case h of
        ENCRYPT \<Rightarrow> ((True, input), k)
      | DECRYPT \<Rightarrow>
          if length input < 16 then ((False, []), k)
          else ((True, take (length input - 16) input), drop (length input - 16) input))"

definition sample_finish :: "string \<Rightarrow> KeyPurpose \<Rightarrow> string option \<times> string" where
  "sample_finish k h =
     (case h of
        ENCRYPT \<Rightarrow> (Some (replicate 16 (CHR ''m'')), k)
      | DECRYPT \<Rightarrow> if k = replicate 16 (CHR ''m'') then (Some [], k) else (None, k))"

definition sample_ForkExecvp :: "string list \<Rightarrow> filesystem \<Rightarrow> int \<times> filesystem" where
  "sample_ForkExecvp args f =
     (case args of
        [prog, opt, d] \<Rightarrow>
          if prog = kRmPath
          then (0, f\<lparr>files := (\<lambda>path. if prefix (d @ ''/'') path then None else files f path),
                     dirs := dirs f - {d}\<rparr>)
          else (1, f)
      | _ \<Rightarrow> (0, f))"

definition sample :: "(string, KeyPurpose) collaborators" where
  "sample =
     \<lparr>hardware_bound_policy = (\<lambda>auth. secret auth = []),
      sizeof_hw_auth_token_t = 69,
      hw_auth_token_user_id = (\<lambda>t. 0),
      property_get_SCRYPT_PROP = ''15:3:1'',
      SHA512 = sample_SHA512,
      parse_scrypt_parameters = (\<lambda>s. if s = ''15:3:1'' then Some (15, 3, 1) else None),
      crypto_scrypt = (\<lambda>secret' salt N r p n. Some (resize n (secret' @ salt))),
      EVP_CIPHER_CTX_new = True,
      EVP_EncryptInit_ex = (\<lambda>key nonce. True),
      EVP_EncryptUpdate = (\<lambda>key nonce plaintext. Some plaintext),
      EVP_EncryptFinal_ex = (\<lambda>key nonce plaintext. Some 0),
      EVP_CTRL_GCM_GET_TAG = (\<lambda>key nonce plaintext. Some (resize 16 key)),
      EVP_DecryptInit_ex = (\<lambda>key nonce. True),
      EVP_DecryptUpdate = (\<lambda>key nonce body. Some body),
      EVP_CTRL_GCM_SET_TAG = (\<lambda>tag. True),
      EVP_DecryptFinal_ex =
        (\<lambda>key nonce body tag. if tag = resize 16 key then Some 0 else None),
      km_connect = (\<lambda>k. True),
      km_generateKey = sample_generateKey,
      km_begin = sample_begin,
      km_upgradeKey = sample_upgradeKey,
      km_deleteKey = (\<lambda>k kmKey. (True, k)),
      km_updateCompletely = sample_updateCompletely,
      km_finish = sample_finish,
      ForkExecvp = sample_ForkExecvp\<rparr>"

definition empty_world :: "string world" where
  "empty_world =
     \<lparr>fs = \<lparr>files = Map.empty, dirs = {}, unwritable = {}\<rparr>,
      urandom = replicate 20000 (CHR ''r''),
      keymaster = [],
      trace = []\<rparr>"

definition upgrade_world :: "string world" where
  "upgrade_world =
     \<lparr>fs = \<lparr>files = [''d/keymaster_key_blob'' \<mapsto> ''ooKapp''],
             dirs = {''d''}, unwritable = {}\<rparr>,
      urandom = [],
      keymaster = [],
      trace = []\<rparr>"

text \<open>
  Credentials: a password without a token (software path), a token without a
  password (hardware path, \<^verbatim>\<open>nopassword\<close>), and the same token with passwords.
\<close>

definition password_only :: KeyAuthentication where
  "password_only = \<lparr>token = [], secret = ''pw''\<rparr>"

definition token_only :: KeyAuthentication where
  "token_only = \<lparr>token = replicate 69 (CHR ''t''), secret = []\<rparr>"

definition token_and_password :: KeyAuthentication where
  "token_and_password = \<lparr>token = replicate 69 (CHR ''t''), secret = ''pw''\<rparr>"

definition token_and_guess :: KeyAuthentication where
  "token_and_guess = \<lparr>token = replicate 69 (CHR ''t''), secret = ''guess''\<rparr>"

text \<open>
  A directory that holds the key \<^verbatim>\<open>KEY\<close> encrypted in software, with a tag that is not
  the one the cipher computes; and the same directory with a version file that holds 2.
\<close>

definition tampered_world :: "string world" where
  "tampered_world =
     \<lparr>fs = \<lparr>files = [''d/version'' \<mapsto> ''1'', ''d/secdiscardable'' \<mapsto> ''sd'',
                      ''d/stretching'' \<mapsto> ''none'',
                      ''d/encrypted_key'' \<mapsto> ''rrrrrrrrrrrrKEYwprrrrrrrrrrrrrx''],
             dirs = {''d''}, unwritable = {}\<rparr>,
      urandom = [],
      keymaster = [],
      trace = []\<rparr>"

definition old_version_world :: "string world" where
  "old_version_world =
     \<lparr>fs = \<lparr>files = [''d/version'' \<mapsto> ''2'', ''d/secdiscardable'' \<mapsto> ''sd'',
                      ''d/stretching'' \<mapsto> ''none'',
                      ''d/encrypted_key'' \<mapsto> ''rrrrrrrrrrrrKEYwprrrrrrrrrrrrrx''],
             dirs = {''d''}, unwritable = {}\<rparr>,
      urandom = [],
      keymaster = [],
      trace = []\<rparr>"

subsection \<open>A second instance, with binding collaborators\<close>

text \<open>
  The small instance with a hash that keeps the last 15 bytes of the message, a cipher
  that takes only the keys this hash gives and makes its tag from the key, and a key
  service that marks the blobs it generates for a secure user id and wants a token for
  them. It never offers an upgrade. Its cipher tells the keys apart, and its service
  asks for the token, which the first instance does not.
\<close>

definition strict_SHA512 :: "string \<Rightarrow> string" where
  "strict_SHA512 m = resize SHA512_DIGEST_LENGTH (take 15 (rev (drop SHA512_CBLOCK m)))"

definition strict_generateKey :: "string \<Rightarrow> AuthorizationSet \<Rightarrow> string option \<times> string" where
  "strict_generateKey k params =
     (case application_id params of
        None \<Rightarrow> (None, k)
      | Some a \<Rightarrow>
          (Some ((if user_secure_id params = None then CHR ''N'' else CHR ''A'') # a), k))"

definition strict_begin ::
  "string \<Rightarrow> KeyPurpose \<Rightarrow> string \<Rightarrow> AuthorizationSet
     \<Rightarrow> (KeyPurpose KeymasterOperation \<times> AuthorizationSet) \<times> string" where
  "strict_begin k purpose kmKey inParams =
     (case kmKey of
        [] \<Rightarrow> ((NoOperation (OTHER_ERROR 33), []), k)
      | c # a \<Rightarrow>
          if application_id inParams \<noteq> Some a
          then ((NoOperation (OTHER_ERROR 33), []), k)
          else if c = CHR ''A'' \<and> auth_token inParams = None
          then ((NoOperation (OTHER_ERROR 26), []), k)
          else ((Operation purpose,
                 if purpose = ENCRYPT then [TAG_NONCE (replicate 12 (CHR ''n''))] else []), k))"

definition strict :: "(string, KeyPurpose) collaborators" where
  "strict =
     sample\<lparr>SHA512 := strict_SHA512,
            EVP_EncryptInit_ex := (\<lambda>key nonce. key = resize 32 (take 15 key)),
            EVP_EncryptUpdate :=
              (\<lambda>key nonce plaintext.
                 if key = resize 32 (take 15 key) then Some plaintext else None),
            EVP_CTRL_GCM_GET_TAG := (\<lambda>key nonce plaintext. Some (CHR ''s'' # take 15 key)),
            EVP_DecryptInit_ex := (\<lambda>key nonce. key = resize 32 (take 15 key)),
            EVP_DecryptFinal_ex :=
              (\<lambda>key nonce body tag. if tag = CHR ''s'' # take 15 key then Some 0 else None),
            km_generateKey := strict_generateKey,
            km_begin := strict_begin,
            km_upgradeKey := (\<lambda>k kmKey keyParams. (None, k))\<rparr>"

text \<open>
  Two more credentials: neither token nor password (hardware path by policy), and
  another password without a token.
\<close>

definition no_credentials :: KeyAuthentication where
  "no_credentials = \<lparr>token = [], secret = []\<rparr>"

definition guess_only :: KeyAuthentication where
  "guess_only = \<lparr>token = [], secret = ''guess''\<rparr>"

subsection \<open>Notions used in the proofs\<close>

text \<open>
  The events that encrypting and decrypting leave in the trace: the calls to the
  hardware service with the reads and writes of the key blob that go with them, and
  the software cipher with the random bytes of its nonce.
\<close>

fun is_service_event :: "string \<Rightarrow> event \<Rightarrow> bool" where
  "is_service_event dir EvKmConnect = True"
| "is_service_event dir (EvKmGenerateKey params) = True"
| "is_service_event dir (EvKmBegin purpose kmKey inParams) = True"
| "is_service_event dir (EvKmUpgradeKey kmKey) = True"
| "is_service_event dir (EvKmDeleteKey kmKey) = True"
| "is_service_event dir (EvKmUpdate input) = True"
| "is_service_event dir EvKmFinish = True"
| "is_service_event dir (EvRead filename) = (filename = dir @ ''/'' @ kFn_keymaster_key_blob)"
| "is_service_event dir (EvWrite filename payload) =
     (filename = dir @ ''/'' @ kFn_keymaster_key_blob \<or>
      filename = dir @ ''/'' @ kFn_keymaster_key_blob_upgraded)"
| "is_service_event dir (EvRename old new) = True"
| "is_service_event dir (EvRandom count) = True"
| "is_service_event dir (EvEncrypt preKey plaintext) = True"
| "is_service_event dir (EvDecrypt preKey ciphertext) = True"
| "is_service_event dir e = False"

text \<open>
  What encrypting and decrypting leave alone: every file but the key blob and its
  temporary name, and the trace so far.
\<close>

definition service_frame :: "string \<Rightarrow> 'k world \<Rightarrow> 'k world \<Rightarrow> bool" where
  "service_frame dir w w' \<longleftrightarrow>
     (\<forall>p. p \<noteq> dir @ ''/'' @ kFn_keymaster_key_blob \<and>
          p \<noteq> dir @ ''/'' @ kFn_keymaster_key_blob_upgraded \<longrightarrow>
          files (fs w') p = files (fs w) p) \<and>
     dirs (fs w') = dirs (fs w) \<and> unwritable (fs w') = unwritable (fs w) \<and>
     (\<exists>evs. trace w' = trace w @ evs \<and> list_all (is_service_event dir) evs)"

text \<open>The two conditional blocks of \<open>storeKey\<close>, and the two of \<open>retrieveKey\<close>.\<close>

definition storeKey_salt ::
  "string \<Rightarrow> string \<Rightarrow> 'k world \<Rightarrow> string option \<times> 'k world" where
  "storeKey_salt dir stretching w5 =
     (if stretchingNeedsSalt stretching
      then (case ReadRandomBytes SALT_BYTES w5 of
              (None, w6) \<Rightarrow> (None, w6)
            | (Some salt, w6) \<Rightarrow>
                (case writeStringToFile salt (dir @ ''/'' @ kFn_salt) w6 of
                   (ok7, w7) \<Rightarrow> if \<not> ok7 then (None, w7) else (Some salt, w7)))
      else (Some [], w5))"

definition storeKey_encrypt ::
  "('k, 'h) collaborators \<Rightarrow> string \<Rightarrow> KeyAuthentication \<Rightarrow> string \<Rightarrow> string \<Rightarrow> 'k world
     \<Rightarrow> (string option \<times> 'k world) option" where
  "storeKey_encrypt env dir auth appId key w8 =
     (if usesKeymaster env auth
      then (case Keymaster env w8 of (connected, w9) \<Rightarrow>
            if \<not> connected then Some (None, w9) else
            (case generateKeymasterKey env auth appId w9 of
              (None, w10) \<Rightarrow> Some (None, w10)
            | (Some kmKey, w10) \<Rightarrow>
            (case writeStringToFile kmKey (dir @ ''/'' @ kFn_keymaster_key_blob) w10 of
              (ok11, w11) \<Rightarrow>
            if \<not> ok11 then Some (None, w11) else
            encryptWithKeymasterKey env dir (beginParams auth appId) key w11)))
      else Some (encryptWithoutKeymaster env appId key w8))"


definition retrieveKey_decrypt ::
  "('k, 'h) collaborators \<Rightarrow> string \<Rightarrow> KeyAuthentication \<Rightarrow> string \<Rightarrow> string \<Rightarrow> string
     \<Rightarrow> 'k world \<Rightarrow> ((exception + bool) \<times> string \<times> 'k world) option" where
  "retrieveKey_decrypt env dir auth appId encryptedMessage key w6 =
     (if usesKeymaster env auth
      then (case Keymaster env w6 of (connected, w7) \<Rightarrow>
            if \<not> connected then Some (Inr False, key, w7) else
            decryptWithKeymasterKey env dir (beginParams auth appId) encryptedMessage key w7)
      else (case decryptWithoutKeymaster env appId encryptedMessage key w6 of
              (decrypted, key', w7) \<Rightarrow> Some (Inr decrypted, key', w7)))"




text \<open>A run that leaves the file at path \<open>p\<close> as it was and only adds to the trace.\<close>

definition keeps :: "string \<Rightarrow> 'k world \<Rightarrow> 'k world \<Rightarrow> bool" where
  "keeps p w w' \<longleftrightarrow>
     files (fs w') p = files (fs w) p \<and> (\<exists>evs. trace w' = trace w @ evs)"


text \<open>
  What the software decryption leaves in the output string once it has reached the
  update step: the string resized to the length of the ciphertext less nonce and tag,
  overwritten with the bytes that \<^verbatim>\<open>EVP_DecryptUpdate\<close> produced.
\<close>

definition software_output ::
  "('k, 'h) collaborators \<Rightarrow> string \<Rightarrow> string \<Rightarrow> string \<Rightarrow> string" where
  "software_output env preKey ciphertext plaintext =
     (let size = length ciphertext - GCM_NONCE_BYTES - GCM_MAC_BYTES;
          resized = resize size plaintext
      in case EVP_DecryptUpdate env
                (resize AES_KEY_BYTES (hashWithPrefix env kHashPrefix_keygen preKey))
                (take GCM_NONCE_BYTES ciphertext)
                (take size (drop GCM_NONCE_BYTES ciphertext)) of
           None \<Rightarrow> resized
         | Some output \<Rightarrow> store_at resized 0 output)"


text \<open>
  The AES key that the software path derives from the binding identifier.
\<close>

definition derived_key :: "('k, 'h) collaborators \<Rightarrow> string \<Rightarrow> string" where
  "derived_key env preKey = resize AES_KEY_BYTES (hashWithPrefix env kHashPrefix_keygen preKey)"

text \<open>
  The part of \<open>retrieveKey\<close> that comes before the decryption, step by step as in
  the source: it answers \<open>None\<close> where \<open>retrieveKey\<close> returns false before it decrypts,
  and otherwise the binding identifier, the ciphertext, and the world in which the
  decryption starts.
\<close>

definition retrieveKey_input ::
  "('k, 'h) collaborators \<Rightarrow> string \<Rightarrow> KeyAuthentication \<Rightarrow> 'k world
     \<Rightarrow> (string \<times> string \<times> 'k world) option" where
  "retrieveKey_input env dir auth w =
     (case readFileToString (dir @ ''/'' @ kFn_version) w of
        (None, w1) \<Rightarrow> None
      | (Some version, w1) \<Rightarrow>
      if version \<noteq> kCurrentVersion then None else
      (case readFileToString (dir @ ''/'' @ kFn_secdiscardable) w1 of
        (None, w2) \<Rightarrow> None
      | (Some secdiscardable, w2) \<Rightarrow>
      (case readFileToString (dir @ ''/'' @ kFn_stretching) w2 of
        (None, w3) \<Rightarrow> None
      | (Some stretching, w3) \<Rightarrow>
      (case (if stretchingNeedsSalt stretching
            then readFileToString (dir @ ''/'' @ kFn_salt) w3
            else (Some [], w3)) of
        (None, w4) \<Rightarrow> None
      | (Some salt, w4) \<Rightarrow>
      (case generateAppId env auth stretching salt secdiscardable w4 of
        (None, w5) \<Rightarrow> None
      | (Some appId, w5) \<Rightarrow>
      (case readFileToString (dir @ ''/'' @ kFn_encrypted_key) w5 of
        (None, w6) \<Rightarrow> None
      | (Some encryptedMessage, w6) \<Rightarrow> Some (appId, encryptedMessage, w6)))))))"


section \<open>Properties\<close>

subsection \<open>Basic facts\<close>

lemma length_resize [simp]: "length (resize n s) = n"
  by (simp add: resize_def)

lemma fs_emit [simp]: "fs (emit e w) = fs w"
  and urandom_emit [simp]: "urandom (emit e w) = urandom w"
  and keymaster_emit [simp]: "keymaster (emit e w) = keymaster w"
  and trace_emit [simp]: "trace (emit e w) = trace w @ [e]"
  by (simp_all add: emit_def)

lemmas kFn_defs = kFn_encrypted_key_def kFn_keymaster_key_blob_def
  kFn_keymaster_key_blob_upgraded_def kFn_salt_def kFn_secdiscardable_def
  kFn_stretching_def kFn_version_def

lemmas km_call_defs =
  keymaster_begin_def keymaster_upgradeKey_def keymaster_deleteKey_def
  keymaster_generateKey_def updateCompletely_def finish_def Keymaster_def emit_def

lemmas fs_call_defs =
  readFileToString_def writeStringToFile_def rename'_def mkdir'_def emit_def

lemmas sample_defs = sample_def sample_begin_def sample_upgradeKey_def sample_generateKey_def
  sample_updateCompletely_def sample_finish_def

lemma std_equal_Equal_iff: "std_equal p s i = Equal \<longleftrightarrow> prefix p (drop i s)"
proof (induction p arbitrary: i)
  case Nil
  then show ?case by simp
next
  case (Cons c cs)
  show ?case
  proof (cases "i < length s")
    case True
    then have d: "drop i s = s ! i # drop (Suc i) s"
      by (simp add: Cons_nth_drop_Suc)
    show ?thesis using True Cons.IH [of "Suc i"] by (simp add: at_def d)
  next
    case False
    then show ?thesis by (simp add: at_def)
  qed
qed

lemma std_equal_OutOfBounds:
  "std_equal p s i = OutOfBounds j \<Longrightarrow> i \<le> length s \<Longrightarrow> j = length s"
proof (induction p arbitrary: i)
  case Nil
  then show ?case by simp
next
  case (Cons c cs)
  then show ?case
    by (auto simp: at_def split: if_splits)
qed

subsection \<open>The upgrade loop\<close>

text \<open>
  Induction over the passes of a run of the loop that returns: a property that holds
  for the pass that returns, and is carried backwards over every pass that goes
  round, holds at the start.
\<close>

lemma begin_loop_induct:
  assumes run: "begin_loop env dir purpose keyParams inParams kmKey w = Some r"
    and stop: "\<And>kmKey w. begin_iteration env dir purpose keyParams inParams kmKey w = Inl r
                 \<Longrightarrow> P kmKey w"
    and step: "\<And>kmKey w newKey w'.
                 begin_iteration env dir purpose keyParams inParams kmKey w = Inr (newKey, w')
                 \<Longrightarrow> P newKey w' \<Longrightarrow> P kmKey w"
  shows "P kmKey w"
proof -
  have "begin_loop env' dir' purpose' keyParams' inParams' kmKey w = Some r' \<Longrightarrow>
        env' = env \<and> dir' = dir \<and> purpose' = purpose \<and> keyParams' = keyParams \<and>
        inParams' = inParams \<and> r' = r \<longrightarrow> P kmKey w"
    for env' dir' purpose' keyParams' inParams' r'
  proof (induction env' dir' purpose' keyParams' inParams' kmKey w r'
         rule: begin_loop.raw_induct[rotated 1, consumes 1])
    case (1 f env' dir' purpose' keyParams' inParams' kmKey w r')
    show ?case
    proof (intro impI, elim conjE)
      assume e: "env' = env" "dir' = dir" "purpose' = purpose" "keyParams' = keyParams"
        "inParams' = inParams" "r' = r"
      show "P kmKey w"
      proof (cases "begin_iteration env dir purpose keyParams inParams kmKey w")
        case (Inl a)
        with "1.hyps" e have "a = r" by simp
        with Inl stop show ?thesis by simp
      next
        case (Inr b)
        obtain newKey w' where b: "b = (newKey, w')" by (cases b)
        with "1.hyps" e Inr
        have "f env dir purpose keyParams inParams newKey w' = Some r" by simp
        then have "P newKey w'" using "1.IH" e by blast
        with Inr b step show ?thesis by simp
      qed
    qed
  qed
  with run show ?thesis by blast
qed

lemma service_frame_refl: "service_frame dir w w"
  by (simp add: service_frame_def)

lemma service_frame_trans:
  "service_frame dir w w' \<Longrightarrow> service_frame dir w' w'' \<Longrightarrow> service_frame dir w w''"
  unfolding service_frame_def by auto

lemma begin_iteration_frame_Inl:
  "begin_iteration env dir purpose keyParams inParams kmKey w = Inl (r, w')
   \<Longrightarrow> service_frame dir w w'"
  by (auto simp: begin_iteration_def km_call_defs fs_call_defs service_frame_def
           split: prod.splits KeymasterOperation.splits option.splits if_splits)

lemma begin_iteration_frame_Inr:
  "begin_iteration env dir purpose keyParams inParams kmKey w = Inr (newKey, w')
   \<Longrightarrow> service_frame dir w w'"
  by (auto simp: begin_iteration_def km_call_defs fs_call_defs service_frame_def
           split: prod.splits KeymasterOperation.splits option.splits if_splits)



lemma begin_loop_frame:
  assumes "begin_loop env dir purpose keyParams inParams kmKey w = Some (r, w')"
  shows "service_frame dir w w'"
  using assms
proof (rule begin_loop_induct)
  fix kmKey w
  assume "begin_iteration env dir purpose keyParams inParams kmKey w = Inl (r, w')"
  then show "service_frame dir w w'" by (rule begin_iteration_frame_Inl)
next
  fix kmKey w newKey w''
  assume "begin_iteration env dir purpose keyParams inParams kmKey w = Inr (newKey, w'')"
    and "service_frame dir w'' w'"
  then show "service_frame dir w w'"
    by (blast intro: service_frame_trans begin_iteration_frame_Inr)
qed


lemma begin_iteration_Inl_trace:
  "begin_iteration env dir purpose keyParams inParams kmKey w = Inl (r, w')
   \<Longrightarrow> \<exists>evs. trace w' = trace w @ evs \<and> length (filter is_KmBegin evs) = 1 \<and>
             filter is_KmDeleteKey evs = []"
  by (auto simp: begin_iteration_def km_call_defs fs_call_defs
           split: prod.splits KeymasterOperation.splits option.splits if_splits)

lemma begin_iteration_Inr_trace:
  "begin_iteration env dir purpose keyParams inParams kmKey w = Inr (newKey, w')
   \<Longrightarrow> \<exists>evs. trace w' = trace w @ evs \<and> length (filter is_KmBegin evs) = 1 \<and>
             length (filter is_KmDeleteKey evs) = 1"
  by (auto simp: begin_iteration_def km_call_defs fs_call_defs
           split: prod.splits KeymasterOperation.splits option.splits if_splits)

lemma offers_0_returns:
  "offers_at_most env purpose keyParams inParams 0 kmKey (keymaster w)
   \<Longrightarrow> \<exists>r. begin_iteration env dir purpose keyParams inParams kmKey w = Inl r"
  by (auto simp: begin_iteration_def km_call_defs fs_call_defs
           split: prod.splits KeymasterOperation.splits option.splits if_splits)

lemma offers_Suc_continues:
  "offers_at_most env purpose keyParams inParams (Suc n) kmKey (keymaster w)
   \<Longrightarrow> begin_iteration env dir purpose keyParams inParams kmKey w = Inr (newKey, w')
   \<Longrightarrow> offers_at_most env purpose keyParams inParams n newKey (keymaster w')"
  by (auto simp: begin_iteration_def km_call_defs fs_call_defs
           split: prod.splits KeymasterOperation.splits option.splits if_splits)

lemma begin_loop_bounded:
  "offers_at_most env purpose keyParams inParams n kmKey (keymaster w)
   \<Longrightarrow> \<exists>r w' evs. begin_loop env dir purpose keyParams inParams kmKey w = Some (r, w') \<and>
         trace w' = trace w @ evs \<and>
         length (filter is_KmBegin evs) = Suc (length (filter is_KmDeleteKey evs)) \<and>
         length (filter is_KmDeleteKey evs) \<le> n"
proof (induction n arbitrary: kmKey w)
  case 0
  from offers_0_returns [OF this] obtain r w'
    where it: "begin_iteration env dir purpose keyParams inParams kmKey w = Inl (r, w')"
    by (metis surj_pair)
  from begin_iteration_Inl_trace [OF it] obtain evs
    where "trace w' = trace w @ evs" "length (filter is_KmBegin evs) = 1"
      "filter is_KmDeleteKey evs = []" by blast
  moreover have "begin_loop env dir purpose keyParams inParams kmKey w = Some (r, w')"
    by (subst begin_loop.simps) (simp add: it)
  ultimately show ?case by auto
next
  case (Suc n)
  show ?case
  proof (cases "begin_iteration env dir purpose keyParams inParams kmKey w")
    case (Inl a)
    obtain r w' where a: "a = (r, w')" by (cases a)
    from begin_iteration_Inl_trace [OF Inl [unfolded a]] obtain evs
      where "trace w' = trace w @ evs" "length (filter is_KmBegin evs) = 1"
        "filter is_KmDeleteKey evs = []" by blast
    moreover have "begin_loop env dir purpose keyParams inParams kmKey w = Some (r, w')"
      by (subst begin_loop.simps) (simp add: Inl a)
    ultimately show ?thesis by auto
  next
    case (Inr b)
    obtain newKey w1 where b: "b = (newKey, w1)" by (cases b)
    note it = Inr [unfolded b]
    from offers_Suc_continues [OF Suc.prems it]
    have "offers_at_most env purpose keyParams inParams n newKey (keymaster w1)" .
    from Suc.IH [OF this] obtain r w' evs2
      where run: "begin_loop env dir purpose keyParams inParams newKey w1 = Some (r, w')"
        and t2: "trace w' = trace w1 @ evs2"
        and c2: "length (filter is_KmBegin evs2) = Suc (length (filter is_KmDeleteKey evs2))"
        and d2: "length (filter is_KmDeleteKey evs2) \<le> n" by blast
    from begin_iteration_Inr_trace [OF it] obtain evs1
      where t1: "trace w1 = trace w @ evs1" and c1: "length (filter is_KmBegin evs1) = 1"
        and d1: "length (filter is_KmDeleteKey evs1) = 1" by blast
    have "begin_loop env dir purpose keyParams inParams kmKey w = Some (r, w')"
      by (subst begin_loop.simps) (simp add: it run)
    moreover have "trace w' = trace w @ (evs1 @ evs2)" using t1 t2 by simp
    moreover have "length (filter is_KmBegin (evs1 @ evs2))
                     = Suc (length (filter is_KmDeleteKey (evs1 @ evs2)))"
      using c1 c2 d1 by simp
    moreover have "length (filter is_KmDeleteKey (evs1 @ evs2)) \<le> Suc n"
      using d1 d2 by simp
    ultimately show ?thesis by blast
  qed
qed

text \<open>
  Claim C6. \<open>begin\<close> returns for every input, provided the hardware service makes at
  most \<open>n\<close> consecutive upgrade offers for the key blob found in the directory. The
  service is then asked to begin at most once more than the number of upgrades that
  were completed (the old key is deleted exactly when an upgrade has been written and
  renamed into place), and at most \<open>n\<close> upgrades are completed: no attempt is repeated
  after any other failure.
\<close>

theorem begin_terminates:
  assumes "case files (fs w) (dir @ ''/'' @ kFn_keymaster_key_blob) of
             None \<Rightarrow> True
           | Some kmKey \<Rightarrow>
               offers_at_most env purpose keyParams (keyParams @ opParams) n kmKey (keymaster w)"
  shows "\<exists>r w'. begin' env dir purpose keyParams opParams w = Some (r, w') \<and>
           length (filter is_KmBegin (events_since w w'))
             \<le> Suc (length (filter is_KmDeleteKey (events_since w w'))) \<and>
           length (filter is_KmDeleteKey (events_since w w')) \<le> n"
proof (cases "files (fs w) (dir @ ''/'' @ kFn_keymaster_key_blob)")
  case None
  then show ?thesis
    by (simp add: begin'_def readFileToString_def events_since_def emit_def)
next
  case (Some kmKey)
  let ?w1 = "emit (EvRead (dir @ ''/'' @ kFn_keymaster_key_blob)) w"
  have "offers_at_most env purpose keyParams (keyParams @ opParams) n kmKey (keymaster ?w1)"
    using assms Some by (simp add: emit_def)
  from begin_loop_bounded [OF this, of dir] obtain r w' evs
    where run: "begin_loop env dir purpose keyParams (keyParams @ opParams) kmKey ?w1
                  = Some (r, w')"
      and t: "trace w' = trace ?w1 @ evs"
      and c: "length (filter is_KmBegin evs) = Suc (length (filter is_KmDeleteKey evs))"
      and d: "length (filter is_KmDeleteKey evs) \<le> n" by blast
  have "begin' env dir purpose keyParams opParams w = Some (r, w')"
    using Some run by (simp add: begin'_def readFileToString_def)
  moreover have "events_since w w' = EvRead (dir @ ''/'' @ kFn_keymaster_key_blob) # evs"
    using t by (simp add: events_since_def emit_def)
  ultimately show ?thesis using c d by simp
qed

text \<open>
  A run of the claim: the blob on disk is two upgrades old, and \<open>begin\<close> returns after
  the service has offered both.
\<close>

theorem begin_terminates_witness:
  "offers_at_most sample DECRYPT [TAG_APPLICATION_ID ''app''] ([TAG_APPLICATION_ID ''app''] @ [])
      2 ''ooKapp'' (keymaster upgrade_world) \<and>
   (\<exists>r w'. begin' sample ''d'' DECRYPT [TAG_APPLICATION_ID ''app''] [] upgrade_world
              = Some (r, w') \<and>
      length (filter is_KmBegin (events_since upgrade_world w'))
        \<le> Suc (length (filter is_KmDeleteKey (events_since upgrade_world w'))) \<and>
      length (filter is_KmDeleteKey (events_since upgrade_world w')) \<le> 2)"
  using begin_terminates [where env = sample and w = upgrade_world and dir = "''d''"
      and purpose = DECRYPT and keyParams = "[TAG_APPLICATION_ID ''app'']" and opParams = "[]"
      and n = 2]
  by (simp add: upgrade_world_def kFn_keymaster_key_blob_def numeral_2_eq_2 sample_defs)

subsection \<open>Stretching\<close>

text \<open>
  Claim C8. A stretching specification that is neither \<^verbatim>\<open>nopassword\<close> nor \<^verbatim>\<open>none\<close> and
  does not start with the scrypt tag makes \<open>stretchSecret\<close> fail, whatever the secret
  and the salt; in particular it never answers with the secret itself, as \<^verbatim>\<open>none\<close>
  would.
\<close>

theorem stretchSecret_unknown_fails:
  assumes "stretching \<noteq> kStretch_nopassword" and "stretching \<noteq> kStretch_none"
    and "\<not> prefix kStretchPrefix_scrypt stretching"
  shows "stretchSecret env stretching secret' salt = None"
proof -
  have "std_equal kStretchPrefix_scrypt stretching 0 \<noteq> Equal"
    using assms(3) by (simp add: std_equal_Equal_iff)
  then show ?thesis using assms(1,2)
    by (simp add: stretchSecret_def split: cmp.splits)
qed

theorem stretchSecret_unknown_fails_witness:
  "''pbkdf2 4096'' \<noteq> kStretch_nopassword \<and> ''pbkdf2 4096'' \<noteq> kStretch_none \<and>
   \<not> prefix kStretchPrefix_scrypt ''pbkdf2 4096'' \<and>
   stretchSecret sample ''pbkdf2 4096'' ''pw'' ''salt'' = None"
  using stretchSecret_unknown_fails [of "''pbkdf2 4096''" sample "''pw''" "''salt''"]
  by (simp add: kStretch_nopassword_def kStretch_none_def kStretchPrefix_scrypt_def)

text \<open>
  Claim C10. The comparison with the scrypt prefix does not stay within the
  characters of the stretching specification: for \<^verbatim>\<open>scr\<close>, which is shorter than the
  prefix and agrees with it, the walk reads index 3 of a string of 3 characters.
\<close>

theorem prefix_compare_reads_past_end:
  "std_equal kStretchPrefix_scrypt ''scr'' 0 = OutOfBounds 3 \<and> at ''scr'' 3 = None"
  by (simp add: kStretchPrefix_scrypt_def at_def)

subsection \<open>What encrypting and decrypting leave alone\<close>

lemma service_frameI:
  assumes "\<And>p. p \<noteq> dir @ ''/'' @ kFn_keymaster_key_blob \<Longrightarrow>
               p \<noteq> dir @ ''/'' @ kFn_keymaster_key_blob_upgraded \<Longrightarrow>
               files (fs w') p = files (fs w) p"
    and "dirs (fs w') = dirs (fs w)" and "unwritable (fs w') = unwritable (fs w)"
    and "trace w' = trace w @ evs" and "list_all (is_service_event dir) evs"
  shows "service_frame dir w w'"
  using assms unfolding service_frame_def by blast

lemma service_frame_emit:
  "is_service_event dir e \<Longrightarrow> service_frame dir w (emit e w)"
  by (simp add: service_frame_def)

lemma service_frame_km [simp]:
  "service_frame dir w (w'\<lparr>keymaster := k\<rparr>) = service_frame dir w w'"
  "service_frame dir (w\<lparr>keymaster := k\<rparr>) w' = service_frame dir w w'"
  by (simp_all add: service_frame_def)

lemma service_frame_urandom [simp]:
  "service_frame dir w (w'\<lparr>urandom := u\<rparr>) = service_frame dir w w'"
  by (simp_all add: service_frame_def)

lemma service_frame_step:
  "service_frame dir w w' \<Longrightarrow> is_service_event dir e \<Longrightarrow> service_frame dir w (emit e w')"
  unfolding service_frame_def by auto

lemma begin'_frame:
  assumes "begin' env dir purpose keyParams opParams w = Some (r, w')"
  shows "service_frame dir w w'"
proof (cases "files (fs w) (dir @ ''/'' @ kFn_keymaster_key_blob)")
  case None
  with assms show ?thesis
    by (auto simp: begin'_def readFileToString_def intro: service_frame_emit)
next
  case (Some kmKey)
  with assms have "begin_loop env dir purpose keyParams (keyParams @ opParams) kmKey
      (emit (EvRead (dir @ ''/'' @ kFn_keymaster_key_blob)) w) = Some (r, w')"
    by (simp add: begin'_def readFileToString_def)
  from begin_loop_frame [OF this]
  have "service_frame dir (emit (EvRead (dir @ ''/'' @ kFn_keymaster_key_blob)) w) w'" .
  moreover have "service_frame dir w (emit (EvRead (dir @ ''/'' @ kFn_keymaster_key_blob)) w)"
    by (simp add: service_frame_emit)
  ultimately show ?thesis by (blast intro: service_frame_trans)
qed

lemma updateCompletely_frame:
  "updateCompletely env h input w = (r, w') \<Longrightarrow> service_frame dir w w'"
  by (auto simp: updateCompletely_def service_frame_emit service_frame_step service_frame_refl
      split: prod.splits)

lemma finish_frame:
  "finish env h w = (r, w') \<Longrightarrow> service_frame dir w w'"
  by (auto simp: finish_def service_frame_step service_frame_refl split: prod.splits)

lemma Keymaster_frame:
  "Keymaster env w = (r, w') \<Longrightarrow> service_frame dir w w'"
  by (auto simp: Keymaster_def service_frame_emit)

lemma generateKeymasterKey_frame:
  "generateKeymasterKey env auth appId w = (r, w') \<Longrightarrow> service_frame dir w w'"
  by (auto simp: generateKeymasterKey_def keymaster_generateKey_def Let_def
       service_frame_step service_frame_refl split: if_splits prod.splits)

lemma writeStringToFile_blob_frame:
  "writeStringToFile payload (dir @ CHR ''/'' # kFn_keymaster_key_blob) w = (r, w')
   \<Longrightarrow> service_frame dir w w'"
  by (auto simp: writeStringToFile_def service_frame_def split: if_splits)

lemma encryptWithKeymasterKey_frame:
  assumes "encryptWithKeymasterKey env dir keyParams message w = Some (r, w')"
  shows "service_frame dir w w'"
proof -
  from assms obtain op out w1
    where b: "begin' env dir ENCRYPT keyParams [] w = Some ((op, out), w1)"
    by (auto simp: encryptWithKeymasterKey_def split: option.splits)
  note f1 = begin'_frame [OF b]
  show ?thesis
  proof (cases op)
    case (NoOperation e)
    with assms b f1 show ?thesis by (simp add: encryptWithKeymasterKey_def)
  next
    case (Operation h)
    with assms b have
      "(case GetTagValue_NONCE out of
          None \<Rightarrow> (None, w1)
        | Some nonce \<Rightarrow>
            if \<not> checkSize (length nonce) GCM_NONCE_BYTES then (None, w1)
            else (case updateCompletely env h message w1 of
                    ((updated, body), w2) \<Rightarrow>
                      if \<not> updated then (None, w2)
                      else (case finish env h w2 of
                              (None, w3) \<Rightarrow> (None, w3)
                            | (Some mac, w3) \<Rightarrow>
                                if \<not> checkSize (length mac) GCM_MAC_BYTES
                                then (None, w3)
                                else (Some (nonce @ body @ mac), w3)))) = (r, w')"
      by (simp add: encryptWithKeymasterKey_def)
    then have "service_frame dir w1 w'"
      by (auto split: option.splits if_splits prod.splits
          intro: service_frame_refl service_frame_trans
          dest: updateCompletely_frame [where dir = dir] finish_frame [where dir = dir])
    with f1 show ?thesis by (blast intro: service_frame_trans)
  qed
qed


lemma encryptWithoutKeymaster_frame:
  "encryptWithoutKeymaster env preKey plaintext w = (r, w') \<Longrightarrow> service_frame dir w w'"
  by (auto simp: encryptWithoutKeymaster_def readRandomBytesOrLog_def ReadRandomBytes_def
       Let_def service_frame_def split: if_splits option.splits prod.splits)


lemma storeKey_encrypt_frame:
  assumes "storeKey_encrypt env dir auth appId key w = Some (r, w')"
  shows "service_frame dir w w'"
proof (cases "usesKeymaster env auth")
  case False
  with assms show ?thesis
    by (auto simp: storeKey_encrypt_def dest: encryptWithoutKeymaster_frame)
next
  case True
  with assms show ?thesis
    by (auto simp: storeKey_encrypt_def split: prod.splits if_splits option.splits
        dest!: Keymaster_frame [where dir = dir] generateKeymasterKey_frame [where dir = dir]
          writeStringToFile_blob_frame encryptWithKeymasterKey_frame
        intro: service_frame_trans)
qed


subsection \<open>The runs of store and retrieve, case by case\<close>












lemma storeKey_unfold:
  "storeKey env dir auth key w =
     (case mkdir' dir w of (made, w1) \<Rightarrow>
      if \<not> made then Some (False, w1) else
      (case writeStringToFile kCurrentVersion (dir @ ''/'' @ kFn_version) w1 of (ok2, w2) \<Rightarrow>
      if \<not> ok2 then Some (False, w2) else
      (case readRandomBytesOrLog SECDISCARDABLE_BYTES w2 of
        (None, w3) \<Rightarrow> Some (False, w3)
      | (Some secdiscardable, w3) \<Rightarrow>
      (case writeStringToFile secdiscardable (dir @ ''/'' @ kFn_secdiscardable) w3 of
        (ok4, w4) \<Rightarrow>
      if \<not> ok4 then Some (False, w4) else
      (case writeStringToFile (getStretching env auth) (dir @ ''/'' @ kFn_stretching) w4 of
        (ok5, w5) \<Rightarrow>
      if \<not> ok5 then Some (False, w5) else
      (case storeKey_salt dir (getStretching env auth) w5 of
        (None, w7) \<Rightarrow> Some (False, w7)
      | (Some salt, w7) \<Rightarrow>
      (case generateAppId env auth (getStretching env auth) salt secdiscardable w7 of
        (None, w8) \<Rightarrow> Some (False, w8)
      | (Some appId, w8) \<Rightarrow>
      (case storeKey_encrypt env dir auth appId key w8 of
        None \<Rightarrow> None
      | Some (None, w12) \<Rightarrow> Some (False, w12)
      | Some (Some encryptedKey, w12) \<Rightarrow>
      (case writeStringToFile encryptedKey (dir @ ''/'' @ kFn_encrypted_key) w12 of
        (ok13, w13) \<Rightarrow>
      if \<not> ok13 then Some (False, w13) else Some (True, w13))))))))))"
  unfolding storeKey_def storeKey_salt_def storeKey_encrypt_def Let_def ..

lemma storeKey_cases [consumes 1, case_names mkdir version random secdiscardable stretching
    salt appId encrypt stored]:
  assumes "storeKey env dir auth key w = Some (r, w')"
  obtains
    "mkdir' dir w = (False, w')" "\<not> r"
  | w1 where "mkdir' dir w = (True, w1)"
      "writeStringToFile kCurrentVersion (dir @ ''/'' @ kFn_version) w1 = (False, w')" "\<not> r"
  | w1 w2 where "mkdir' dir w = (True, w1)"
      "writeStringToFile kCurrentVersion (dir @ ''/'' @ kFn_version) w1 = (True, w2)"
      "ReadRandomBytes SECDISCARDABLE_BYTES w2 = (None, w')" "\<not> r"
  | w1 w2 secdiscardable w3 where "mkdir' dir w = (True, w1)"
      "writeStringToFile kCurrentVersion (dir @ ''/'' @ kFn_version) w1 = (True, w2)"
      "ReadRandomBytes SECDISCARDABLE_BYTES w2 = (Some secdiscardable, w3)"
      "writeStringToFile secdiscardable (dir @ ''/'' @ kFn_secdiscardable) w3 = (False, w')"
      "\<not> r"
  | w1 w2 secdiscardable w3 w4 where "mkdir' dir w = (True, w1)"
      "writeStringToFile kCurrentVersion (dir @ ''/'' @ kFn_version) w1 = (True, w2)"
      "ReadRandomBytes SECDISCARDABLE_BYTES w2 = (Some secdiscardable, w3)"
      "writeStringToFile secdiscardable (dir @ ''/'' @ kFn_secdiscardable) w3 = (True, w4)"
      "writeStringToFile (getStretching env auth) (dir @ ''/'' @ kFn_stretching) w4
         = (False, w')" "\<not> r"
  | w1 w2 secdiscardable w3 w4 w5 where "mkdir' dir w = (True, w1)"
      "writeStringToFile kCurrentVersion (dir @ ''/'' @ kFn_version) w1 = (True, w2)"
      "ReadRandomBytes SECDISCARDABLE_BYTES w2 = (Some secdiscardable, w3)"
      "writeStringToFile secdiscardable (dir @ ''/'' @ kFn_secdiscardable) w3 = (True, w4)"
      "writeStringToFile (getStretching env auth) (dir @ ''/'' @ kFn_stretching) w4
         = (True, w5)"
      "storeKey_salt dir (getStretching env auth) w5 = (None, w')" "\<not> r"
  | w1 w2 secdiscardable w3 w4 w5 salt w7 where "mkdir' dir w = (True, w1)"
      "writeStringToFile kCurrentVersion (dir @ ''/'' @ kFn_version) w1 = (True, w2)"
      "ReadRandomBytes SECDISCARDABLE_BYTES w2 = (Some secdiscardable, w3)"
      "writeStringToFile secdiscardable (dir @ ''/'' @ kFn_secdiscardable) w3 = (True, w4)"
      "writeStringToFile (getStretching env auth) (dir @ ''/'' @ kFn_stretching) w4
         = (True, w5)"
      "storeKey_salt dir (getStretching env auth) w5 = (Some salt, w7)"
      "generateAppId env auth (getStretching env auth) salt secdiscardable w7 = (None, w')"
      "\<not> r"
  | w1 w2 secdiscardable w3 w4 w5 salt w7 appId w8 where "mkdir' dir w = (True, w1)"
      "writeStringToFile kCurrentVersion (dir @ ''/'' @ kFn_version) w1 = (True, w2)"
      "ReadRandomBytes SECDISCARDABLE_BYTES w2 = (Some secdiscardable, w3)"
      "writeStringToFile secdiscardable (dir @ ''/'' @ kFn_secdiscardable) w3 = (True, w4)"
      "writeStringToFile (getStretching env auth) (dir @ ''/'' @ kFn_stretching) w4
         = (True, w5)"
      "storeKey_salt dir (getStretching env auth) w5 = (Some salt, w7)"
      "generateAppId env auth (getStretching env auth) salt secdiscardable w7
         = (Some appId, w8)"
      "storeKey_encrypt env dir auth appId key w8 = Some (None, w')" "\<not> r"
  | w1 w2 secdiscardable w3 w4 w5 salt w7 appId w8 encryptedKey w12 where
      "mkdir' dir w = (True, w1)"
      "writeStringToFile kCurrentVersion (dir @ ''/'' @ kFn_version) w1 = (True, w2)"
      "ReadRandomBytes SECDISCARDABLE_BYTES w2 = (Some secdiscardable, w3)"
      "writeStringToFile secdiscardable (dir @ ''/'' @ kFn_secdiscardable) w3 = (True, w4)"
      "writeStringToFile (getStretching env auth) (dir @ ''/'' @ kFn_stretching) w4
         = (True, w5)"
      "storeKey_salt dir (getStretching env auth) w5 = (Some salt, w7)"
      "generateAppId env auth (getStretching env auth) salt secdiscardable w7
         = (Some appId, w8)"
      "storeKey_encrypt env dir auth appId key w8 = Some (Some encryptedKey, w12)"
      "writeStringToFile encryptedKey (dir @ ''/'' @ kFn_encrypted_key) w12 = (r, w')"
  using assms unfolding storeKey_unfold readRandomBytesOrLog_def
  by (auto split: prod.splits option.splits if_splits)




lemma keeps_refl: "keeps p w w"
  by (simp add: keeps_def)

lemma keeps_trans: "keeps p w w' \<Longrightarrow> keeps p w' w'' \<Longrightarrow> keeps p w w''"
  unfolding keeps_def by auto

lemma service_frame_keeps:
  "service_frame dir w w' \<Longrightarrow> p \<noteq> dir @ ''/'' @ kFn_keymaster_key_blob \<Longrightarrow>
   p \<noteq> dir @ ''/'' @ kFn_keymaster_key_blob_upgraded \<Longrightarrow> keeps p w w'"
  unfolding service_frame_def keeps_def by auto

lemma keeps_steps:
  "\<And>d w w' r. mkdir' d w = (r, w') \<Longrightarrow> keeps p w0 w \<Longrightarrow> keeps p w0 w'"
  "\<And>payload f w w' r. writeStringToFile payload f w = (r, w') \<Longrightarrow> keeps p w0 w \<Longrightarrow>
      f \<noteq> p \<Longrightarrow> keeps p w0 w'"
  "\<And>n w w' r. ReadRandomBytes n w = (r, w') \<Longrightarrow> keeps p w0 w \<Longrightarrow> keeps p w0 w'"
  "\<And>dir st w w' r. storeKey_salt dir st w = (r, w') \<Longrightarrow> keeps p w0 w \<Longrightarrow>
      dir @ ''/'' @ kFn_salt \<noteq> p \<Longrightarrow> keeps p w0 w'"
  "\<And>env dir auth appId key w w' r. storeKey_encrypt env dir auth appId key w = Some (r, w')
      \<Longrightarrow> keeps p w0 w \<Longrightarrow> p \<noteq> dir @ ''/'' @ kFn_keymaster_key_blob \<Longrightarrow>
      p \<noteq> dir @ ''/'' @ kFn_keymaster_key_blob_upgraded \<Longrightarrow> keeps p w0 w'"
  "\<And>env auth st salt sd w w' r. generateAppId env auth st salt sd w = (r, w') \<Longrightarrow>
      keeps p w0 w \<Longrightarrow> keeps p w0 w'"
proof -
  show "\<And>d w w' r. mkdir' d w = (r, w') \<Longrightarrow> keeps p w0 w \<Longrightarrow> keeps p w0 w'"
    by (auto simp: mkdir'_def keeps_def split: if_splits)
  show w: "\<And>payload f w w' r. writeStringToFile payload f w = (r, w') \<Longrightarrow> keeps p w0 w \<Longrightarrow>
      f \<noteq> p \<Longrightarrow> keeps p w0 w'"
    by (auto simp: writeStringToFile_def keeps_def split: if_splits)
  show r: "\<And>n w w' r. ReadRandomBytes n w = (r, w') \<Longrightarrow> keeps p w0 w \<Longrightarrow> keeps p w0 w'"
    by (auto simp: ReadRandomBytes_def keeps_def split: if_splits)
  show "\<And>dir st w w' r. storeKey_salt dir st w = (r, w') \<Longrightarrow> keeps p w0 w \<Longrightarrow>
      dir @ ''/'' @ kFn_salt \<noteq> p \<Longrightarrow> keeps p w0 w'"
    by (auto simp: storeKey_salt_def split: if_splits option.splits prod.splits dest: r w)
  show "\<And>env dir auth appId key w w' r. storeKey_encrypt env dir auth appId key w = Some (r, w')
      \<Longrightarrow> keeps p w0 w \<Longrightarrow> p \<noteq> dir @ ''/'' @ kFn_keymaster_key_blob \<Longrightarrow>
      p \<noteq> dir @ ''/'' @ kFn_keymaster_key_blob_upgraded \<Longrightarrow> keeps p w0 w'"
    by (blast intro: keeps_trans service_frame_keeps storeKey_encrypt_frame)
  show "\<And>env auth st salt sd w w' r. generateAppId env auth st salt sd w = (r, w') \<Longrightarrow>
      keeps p w0 w \<Longrightarrow> keeps p w0 w'"
    by (auto simp: generateAppId_def keeps_def split: option.splits)
qed

lemma path_neqs:
  "a \<noteq> b \<Longrightarrow> dir @ ''/'' @ a \<noteq> dir @ ''/'' @ b"
  by simp

lemma kFn_distinct:
  "distinct [kFn_version, kFn_secdiscardable, kFn_stretching, kFn_salt, kFn_encrypted_key,
     kFn_keymaster_key_blob, kFn_keymaster_key_blob_upgraded]"
  by (simp add: kFn_defs)

lemma written:
  "writeStringToFile payload f w = (True, w') \<Longrightarrow> files (fs w') f = Some payload"
  by (auto simp: writeStringToFile_def split: if_splits)

lemma keeps_file: "keeps p w w' \<Longrightarrow> files (fs w) p = v \<Longrightarrow> files (fs w') p = v"
  by (simp add: keeps_def)

lemma storeKey_salt_stored:
  "storeKey_salt dir st w = (Some salt, w') \<Longrightarrow>
   if stretchingNeedsSalt st
   then files (fs w') (dir @ ''/'' @ kFn_salt) = Some salt \<and>
        (\<exists>evs. trace w' = trace w @ evs \<and> EvWrite (dir @ ''/'' @ kFn_salt) salt \<in> set evs)
   else salt = []"
  by (auto simp: storeKey_salt_def ReadRandomBytes_def writeStringToFile_def
      split: if_splits option.splits prod.splits)

text \<open>What a successful store leaves on disk.\<close>

lemma storeKey_stored:
  assumes "storeKey env dir auth key w = Some (True, w')"
  obtains secdiscardable salt appId w8 encryptedKey w12 where
    "files (fs w') (dir @ ''/'' @ kFn_version) = Some kCurrentVersion"
    "files (fs w') (dir @ ''/'' @ kFn_secdiscardable) = Some secdiscardable"
    "files (fs w') (dir @ ''/'' @ kFn_stretching) = Some (getStretching env auth)"
    "if stretchingNeedsSalt (getStretching env auth)
     then files (fs w') (dir @ ''/'' @ kFn_salt) = Some salt else salt = []"
    "fst (generateAppId env auth (getStretching env auth) salt secdiscardable w) = Some appId"
    "storeKey_encrypt env dir auth appId key w8 = Some (Some encryptedKey, w12)"
    "writeStringToFile encryptedKey (dir @ ''/'' @ kFn_encrypted_key) w12 = (True, w')"
  using assms
proof (cases rule: storeKey_cases)
  case (stored w1 w2 secdiscardable w3 w4 w5 salt w7 appId w8 encryptedKey w12)
  note path_neq = kFn_distinct [simplified, THEN conjunct1, simplified]
  have 1: "files (fs w') (dir @ ''/'' @ kFn_version) = Some kCurrentVersion"
    using stored(3-9)
    apply -
    apply (rule keeps_file [OF _ written [OF stored(2)]])
    apply (rule keeps_refl | erule keeps_steps | assumption | (simp add: kFn_defs; fail))+
    done
  have 2: "files (fs w') (dir @ ''/'' @ kFn_secdiscardable) = Some secdiscardable"
    using stored(5-9)
    apply -
    apply (rule keeps_file [OF _ written [OF stored(4)]])
    apply (rule keeps_refl | erule keeps_steps | assumption | (simp add: kFn_defs; fail))+
    done
  have 3: "files (fs w') (dir @ ''/'' @ kFn_stretching) = Some (getStretching env auth)"
    using stored(6-9)
    apply -
    apply (rule keeps_file [OF _ written [OF stored(5)]])
    apply (rule keeps_refl | erule keeps_steps | assumption | (simp add: kFn_defs; fail))+
    done
  have k7: "keeps (dir @ ''/'' @ kFn_salt) w7 w'"
    using stored(7-9)
    apply -
    apply (rule keeps_refl | erule keeps_steps | assumption | (simp add: kFn_defs; fail))+
    done
  have 4: "if stretchingNeedsSalt (getStretching env auth)
     then files (fs w') (dir @ ''/'' @ kFn_salt) = Some salt else salt = []"
    using storeKey_salt_stored [OF stored(6)] keeps_file [OF k7]
    by (auto split: if_splits)
  have 5: "fst (generateAppId env auth (getStretching env auth) salt secdiscardable w) = Some appId"
    using stored(7) by (auto simp: generateAppId_def split: option.splits)
  from 1 2 3 4 5 stored(8) stored(9) that show ?thesis by blast
qed simp_all

subsection \<open>Round trip\<close>










subsection \<open>Runs on the small instance\<close>

lemmas const_defs = AES_KEY_BYTES_def GCM_NONCE_BYTES_def GCM_MAC_BYTES_def SALT_BYTES_def
  SECDISCARDABLE_BYTES_def STRETCHED_BYTES_def AUTH_TIMEOUT_def kCurrentVersion_def
  kStretch_none_def kStretch_nopassword_def kStretchPrefix_scrypt_def
  kHashPrefix_secdiscardable_def kHashPrefix_keygen_def SHA512_CBLOCK_def
  SHA512_DIGEST_LENGTH_def kFn_defs

lemmas call_defs = mkdir'_def writeStringToFile_def readFileToString_def rename'_def
  readRandomBytesOrLog_def ReadRandomBytes_def Keymaster_def keymaster_generateKey_def
  keymaster_begin_def keymaster_upgradeKey_def keymaster_deleteKey_def updateCompletely_def
  finish_def fork_execvp_def generateKeymasterKey_def beginParams_def checkSize_def
  generateAppId_def stretchSecret_def stretchingNeedsSalt_def getStretching_def
  usesKeymaster_def hashWithPrefix_def encryptWithoutKeymaster_def
  decryptWithoutKeymaster_def encryptWithKeymasterKey_def decryptWithKeymasterKey_def
  begin'_def begin_iteration_def substr_from_def resize_def store_at_def at_def

lemmas instance_defs = sample_defs sample_SHA512_def sample_ForkExecvp_def empty_world_def
  password_only_def token_only_def token_and_password_def token_and_guess_def

lemma begin_loop_returns:
  "begin_iteration env dir purpose keyParams inParams kmKey w = Inl r \<Longrightarrow>
   begin_loop env dir purpose keyParams inParams kmKey w = Some r"
  by (subst begin_loop.simps) simp

lemmas eval_defs = storeKey_def retrieveKey_def store_status_def world_after_store_def
  retrieve_outcome_def Let_def const_defs call_defs instance_defs begin_loop_returns
  Cons_replicate_eq

lemma store_status_SomeD:
  "store_status env dir auth key w = Some r \<Longrightarrow>
   storeKey env dir auth key w = Some (r, world_after_store env dir auth key w)"
  by (auto simp: store_status_def world_after_store_def)

lemma retrieve_outcome_SomeD:
  "retrieve_outcome env dir auth key w = Some (r, key') \<Longrightarrow>
   \<exists>w'. retrieveKey env dir auth key w = Some (r, key', w')"
  by (auto simp: retrieve_outcome_def)

lemma retrieve_outcome_eq:
  "retrieveKey env dir auth key w = Some (r, key', w') \<Longrightarrow>
   retrieve_outcome env dir auth key w = Some (r, key')"
  by (simp add: retrieve_outcome_def)



subsection \<open>The version gate\<close>

text \<open>
  Claim C5. When the version file is missing or holds anything but the current
  version, \<open>retrieveKey\<close> fails: it returns false with the key untouched, and the
  world it leaves differs from the one it found by a single event, the read of the
  version file. No stretching, no computation of the binding identifier, no
  decryption and no call to the hardware service has taken place.
\<close>

theorem retrieveKey_version_gate:
  "files (fs w) (dir @ ''/'' @ kFn_version) \<noteq> Some kCurrentVersion \<Longrightarrow>
   retrieveKey env dir auth key w
     = Some (Inr False, key, emit (EvRead (dir @ ''/'' @ kFn_version)) w)"
  by (auto simp: retrieveKey_def readFileToString_def split: option.splits)

theorem retrieveKey_version_gate_witness:
  "files (fs old_version_world) (''d'' @ ''/'' @ kFn_version) \<noteq> Some kCurrentVersion \<and>
   retrieveKey sample ''d'' password_only ''junk'' old_version_world
     = Some (Inr False, ''junk'', emit (EvRead (''d'' @ ''/'' @ kFn_version)) old_version_world)"
  using retrieveKey_version_gate [of old_version_world "''d''" sample password_only "''junk''"]
  by (simp add: old_version_world_def const_defs)

subsection \<open>Destroy\<close>






subsection \<open>The stretching specification that is stored\<close>

text \<open>
  Claim C7. The specification chosen at store time is \<^verbatim>\<open>none\<close> without hardware
  binding, \<^verbatim>\<open>nopassword\<close> with hardware binding and an empty secret, and otherwise
  the scrypt tag followed by the configured cost parameters; and this is what a
  successful store leaves in the stretching file.
\<close>

theorem stretching_policy:
  "getStretching env auth =
     (if \<not> usesKeymaster env auth then ''none''
      else if secret auth = [] then ''nopassword''
      else ''scrypt '' @ property_get_SCRYPT_PROP env) \<and>
   (storeKey env dir auth key w = Some (True, w') \<longrightarrow>
      files (fs w') (dir @ ''/'' @ kFn_stretching) = Some (getStretching env auth))"
proof (intro conjI impI)
  show "getStretching env auth =
     (if \<not> usesKeymaster env auth then ''none''
      else if secret auth = [] then ''nopassword''
      else ''scrypt '' @ property_get_SCRYPT_PROP env)"
    by (simp add: getStretching_def kStretch_none_def kStretch_nopassword_def
        kStretchPrefix_scrypt_def)
next
  assume "storeKey env dir auth key w = Some (True, w')"
  then show "files (fs w') (dir @ ''/'' @ kFn_stretching) = Some (getStretching env auth)"
    by (rule storeKey_stored)
qed

theorem stretching_policy_witness:
  "storeKey sample ''d'' token_and_password ''KEY'' empty_world
     = Some (True, world_after_store sample ''d'' token_and_password ''KEY'' empty_world) \<and>
   getStretching sample token_and_password = ''scrypt 15:3:1'' \<and>
   files (fs (world_after_store sample ''d'' token_and_password ''KEY'' empty_world))
     (''d'' @ ''/'' @ kFn_stretching) = Some ''scrypt 15:3:1''"
proof -
  have s: "storeKey sample ''d'' token_and_password ''KEY'' empty_world
     = Some (True, world_after_store sample ''d'' token_and_password ''KEY'' empty_world)"
    by (rule store_status_SomeD) (simp add: eval_defs)
  have g: "getStretching sample token_and_password = ''scrypt 15:3:1''"
    by (simp add: getStretching_def usesKeymaster_def token_and_password_def sample_def
        kStretchPrefix_scrypt_def)
  from stretching_policy [of sample token_and_password "''d''" "''KEY''" empty_world
      "world_after_store sample ''d'' token_and_password ''KEY'' empty_world"] s g
  show ?thesis by simp
qed

subsection \<open>The salt\<close>












subsection \<open>The output string on failure\<close>

lemma retrieveKey_input_None:
  "retrieveKey_input env dir auth w = None \<Longrightarrow>
   \<exists>w'. retrieveKey env dir auth key w = Some (Inr False, key, w')"
  unfolding retrieveKey_input_def retrieveKey_def
  by (auto simp: readFileToString_def generateAppId_def split: option.splits if_splits)

lemma retrieveKey_input_Some:
  "retrieveKey_input env dir auth w = Some (appId, ciphertext, w6) \<Longrightarrow>
   retrieveKey env dir auth key w = retrieveKey_decrypt env dir auth appId ciphertext key w6"
  unfolding retrieveKey_input_def retrieveKey_def retrieveKey_decrypt_def
  by (auto simp: readFileToString_def generateAppId_def split: option.splits if_splits)

lemma decryptWithoutKeymaster_False:
  assumes "decryptWithoutKeymaster env preKey ciphertext plaintext w = (False, plaintext', w')"
  shows "plaintext' =
           (if length ciphertext < GCM_NONCE_BYTES + GCM_MAC_BYTES \<or> \<not> EVP_CIPHER_CTX_new env \<or>
               \<not> EVP_DecryptInit_ex env (derived_key env preKey) (take GCM_NONCE_BYTES ciphertext)
            then plaintext
            else software_output env preKey ciphertext plaintext)"
  using assms
  by (auto simp: decryptWithoutKeymaster_def software_output_def derived_key_def Let_def
      split: if_splits option.splits)

lemma software_output_plaintext:
  assumes "EVP_DecryptUpdate env (derived_key env preKey) (take GCM_NONCE_BYTES ciphertext)
             (take (length ciphertext - GCM_NONCE_BYTES - GCM_MAC_BYTES)
                (drop GCM_NONCE_BYTES ciphertext)) = Some output"
    and "length output = length ciphertext - GCM_NONCE_BYTES - GCM_MAC_BYTES"
  shows "software_output env preKey ciphertext plaintext = output"
  using assms by (simp add: software_output_def derived_key_def Let_def store_at_def resize_def)

lemma decryptWithKeymasterKey_False:
  assumes "decryptWithKeymasterKey env dir keyParams ciphertext message w
             = Some (Inr False, message', w')"
  shows "message' =
           (case begin' env dir DECRYPT keyParams
                   [TAG_NONCE (take GCM_NONCE_BYTES ciphertext)] w of
              Some ((Operation opHandle, outParams), w1) \<Rightarrow>
                snd (fst (km_updateCompletely env (keymaster w1) opHandle
                            (drop GCM_NONCE_BYTES ciphertext)))
            | _ \<Rightarrow> message)"
  using assms
  by (auto simp: decryptWithKeymasterKey_def Let_def substr_from_def updateCompletely_def
      split: if_splits option.splits prod.splits KeymasterOperation.splits sum.splits)

text \<open>
  Claim C3, as amended. When \<open>retrieveKey\<close> reports failure, nothing clears the key
  string of the caller, and what it holds is determined. It is as it was before the
  call when \<open>retrieveKey\<close> fails before it decrypts (version, secdiscardable,
  stretching, salt or ciphertext unreadable, version mismatch, stretching failure); in
  the hardware path also when the service is not reachable or opens no operation, and
  otherwise it is what \<open>updateCompletely\<close> left in it; in the software path also when
  the ciphertext is shorter than nonce and tag or the cipher context cannot be set up,
  and otherwise it is the string resized to the length of the ciphertext less nonce
  and tag and overwritten with the output of \<^verbatim>\<open>EVP_DecryptUpdate\<close>. In particular,
  once the software cipher has decrypted the whole body, a failure that follows, such
  as a tag that does not verify, leaves exactly the decrypted bytes in the string.
\<close>

theorem retrieveKey_failure_output:
  assumes "retrieveKey env dir auth key w = Some (Inr False, key', w')"
  shows "key' =
           (case retrieveKey_input env dir auth w of
              None \<Rightarrow> key
            | Some (appId, ciphertext, w6) \<Rightarrow>
                if usesKeymaster env auth
                then (if \<not> km_connect env (keymaster w6) then key
                      else (case begin' env dir DECRYPT (beginParams auth appId)
                                   [TAG_NONCE (take GCM_NONCE_BYTES ciphertext)]
                                   (emit EvKmConnect w6) of
                              Some ((Operation opHandle, outParams), w1) \<Rightarrow>
                                snd (fst (km_updateCompletely env (keymaster w1) opHandle
                                            (drop GCM_NONCE_BYTES ciphertext)))
                            | _ \<Rightarrow> key))
                else if length ciphertext < GCM_NONCE_BYTES + GCM_MAC_BYTES \<or>
                        \<not> EVP_CIPHER_CTX_new env \<or>
                        \<not> EVP_DecryptInit_ex env (derived_key env appId)
                            (take GCM_NONCE_BYTES ciphertext)
                     then key
                     else software_output env appId ciphertext key) \<and>
         (\<forall>appId ciphertext w6 plaintext.
            retrieveKey_input env dir auth w = Some (appId, ciphertext, w6) \<and>
            \<not> usesKeymaster env auth \<and>
            GCM_NONCE_BYTES + GCM_MAC_BYTES \<le> length ciphertext \<and>
            EVP_CIPHER_CTX_new env \<and>
            EVP_DecryptInit_ex env (derived_key env appId) (take GCM_NONCE_BYTES ciphertext) \<and>
            EVP_DecryptUpdate env (derived_key env appId) (take GCM_NONCE_BYTES ciphertext)
              (take (length ciphertext - GCM_NONCE_BYTES - GCM_MAC_BYTES)
                 (drop GCM_NONCE_BYTES ciphertext)) = Some plaintext \<and>
            length plaintext = length ciphertext - GCM_NONCE_BYTES - GCM_MAC_BYTES \<longrightarrow>
            key' = plaintext)"
proof (cases "retrieveKey_input env dir auth w")
  case None
  from retrieveKey_input_None [OF None, of key] assms have "key' = key" by auto
  with None show ?thesis by simp
next
  case (Some a)
  obtain appId ciphertext w6 where a: "a = (appId, ciphertext, w6)" by (cases a)
  from retrieveKey_input_Some [OF Some [unfolded a], of key] assms
  have d: "retrieveKey_decrypt env dir auth appId ciphertext key w6 = Some (Inr False, key', w')"
    by simp
  show ?thesis
  proof (cases "usesKeymaster env auth")
    case True
    show ?thesis
    proof (cases "km_connect env (keymaster w6)")
      case False
      with d True have "key' = key" by (simp add: retrieveKey_decrypt_def Keymaster_def)
      with Some a True False show ?thesis by simp
    next
      case c: True
      with d True have "decryptWithKeymasterKey env dir (beginParams auth appId) ciphertext key
          (emit EvKmConnect w6) = Some (Inr False, key', w')"
        by (simp add: retrieveKey_decrypt_def Keymaster_def)
      from decryptWithKeymasterKey_False [OF this] Some a True c show ?thesis by simp
    qed
  next
    case False
    with d have "decryptWithoutKeymaster env appId ciphertext key w6 = (False, key', w')"
      by (auto simp: retrieveKey_decrypt_def split: prod.splits)
    note k = decryptWithoutKeymaster_False [OF this]
    show ?thesis
    proof (intro conjI allI impI)
      from k Some a False show "key' =
           (case retrieveKey_input env dir auth w of
              None \<Rightarrow> key
            | Some (appId, ciphertext, w6) \<Rightarrow>
                if usesKeymaster env auth
                then (if \<not> km_connect env (keymaster w6) then key
                      else (case begin' env dir DECRYPT (beginParams auth appId)
                                   [TAG_NONCE (take GCM_NONCE_BYTES ciphertext)]
                                   (emit EvKmConnect w6) of
                              Some ((Operation opHandle, outParams), w1) \<Rightarrow>
                                snd (fst (km_updateCompletely env (keymaster w1) opHandle
                                            (drop GCM_NONCE_BYTES ciphertext)))
                            | _ \<Rightarrow> key))
                else if length ciphertext < GCM_NONCE_BYTES + GCM_MAC_BYTES \<or>
                        \<not> EVP_CIPHER_CTX_new env \<or>
                        \<not> EVP_DecryptInit_ex env (derived_key env appId)
                            (take GCM_NONCE_BYTES ciphertext)
                     then key
                     else software_output env appId ciphertext key)"
        by simp
    next
      fix appId' ciphertext' w6' plaintext
      assume h: "retrieveKey_input env dir auth w = Some (appId', ciphertext', w6') \<and>
            \<not> usesKeymaster env auth \<and>
            GCM_NONCE_BYTES + GCM_MAC_BYTES \<le> length ciphertext' \<and>
            EVP_CIPHER_CTX_new env \<and>
            EVP_DecryptInit_ex env (derived_key env appId') (take GCM_NONCE_BYTES ciphertext') \<and>
            EVP_DecryptUpdate env (derived_key env appId') (take GCM_NONCE_BYTES ciphertext')
              (take (length ciphertext' - GCM_NONCE_BYTES - GCM_MAC_BYTES)
                 (drop GCM_NONCE_BYTES ciphertext')) = Some plaintext \<and>
            length plaintext = length ciphertext' - GCM_NONCE_BYTES - GCM_MAC_BYTES"
      with Some a have e: "appId' = appId" "ciphertext' = ciphertext" by simp_all
      from h k have "key' = software_output env appId ciphertext key" by (simp add: e)
      also have "\<dots> = plaintext"
        using h by (intro software_output_plaintext) (simp_all add: e)
      finally show "key' = plaintext" .
    qed
  qed
qed

text \<open>
  The claim as stated fails: with a tag that does not verify, \<open>retrieveKey\<close> returns
  false and the key string, empty before the call, holds the decrypted bytes.
\<close>

theorem retrieveKey_failure_output_counterexample:
  "retrieve_outcome sample ''d'' password_only [] tampered_world = Some (Inr False, ''KEY'')"
  by (simp add: eval_defs tampered_world_def)

lemma tampered_retrieve:
  "\<exists>w'. retrieveKey sample ''d'' password_only [] tampered_world = Some (Inr False, ''KEY'', w')"
  by (rule retrieve_outcome_SomeD) (simp add: eval_defs tampered_world_def)

text \<open>
  A run of the amended claim: on the directory with the tampered tag the cipher
  decrypts the body to \<^verbatim>\<open>KEY\<close>, the tag does not verify, and \<open>retrieveKey\<close> returns
  false with \<^verbatim>\<open>KEY\<close> in the key string.
\<close>

theorem retrieveKey_failure_output_witness:
  "\<exists>w' appId ciphertext w6.
     retrieveKey sample ''d'' password_only [] tampered_world = Some (Inr False, ''KEY'', w') \<and>
     retrieveKey_input sample ''d'' password_only tampered_world
       = Some (appId, ciphertext, w6) \<and>
     \<not> usesKeymaster sample password_only \<and>
     GCM_NONCE_BYTES + GCM_MAC_BYTES \<le> length ciphertext \<and>
     EVP_CIPHER_CTX_new sample \<and>
     EVP_DecryptInit_ex sample (derived_key sample appId) (take GCM_NONCE_BYTES ciphertext) \<and>
     EVP_DecryptUpdate sample (derived_key sample appId) (take GCM_NONCE_BYTES ciphertext)
       (take (length ciphertext - GCM_NONCE_BYTES - GCM_MAC_BYTES)
          (drop GCM_NONCE_BYTES ciphertext)) = Some ''KEY'' \<and>
     length ''KEY'' = length ciphertext - GCM_NONCE_BYTES - GCM_MAC_BYTES \<and>
     EVP_DecryptFinal_ex sample (derived_key sample appId) (take GCM_NONCE_BYTES ciphertext)
       (take (length ciphertext - GCM_NONCE_BYTES - GCM_MAC_BYTES)
          (drop GCM_NONCE_BYTES ciphertext))
       (take GCM_MAC_BYTES
          (drop (GCM_NONCE_BYTES + (length ciphertext - GCM_NONCE_BYTES - GCM_MAC_BYTES))
             ciphertext)) = None"
proof -
  from tampered_retrieve obtain w'
    where r: "retrieveKey sample ''d'' password_only [] tampered_world
                = Some (Inr False, ''KEY'', w')" ..
  have i: "\<exists>appId ciphertext w6.
     retrieveKey_input sample ''d'' password_only tampered_world
       = Some (appId, ciphertext, w6) \<and>
     \<not> usesKeymaster sample password_only \<and>
     GCM_NONCE_BYTES + GCM_MAC_BYTES \<le> length ciphertext \<and>
     EVP_CIPHER_CTX_new sample \<and>
     EVP_DecryptInit_ex sample (derived_key sample appId) (take GCM_NONCE_BYTES ciphertext) \<and>
     EVP_DecryptUpdate sample (derived_key sample appId) (take GCM_NONCE_BYTES ciphertext)
       (take (length ciphertext - GCM_NONCE_BYTES - GCM_MAC_BYTES)
          (drop GCM_NONCE_BYTES ciphertext)) = Some ''KEY'' \<and>
     length ''KEY'' = length ciphertext - GCM_NONCE_BYTES - GCM_MAC_BYTES \<and>
     EVP_DecryptFinal_ex sample (derived_key sample appId) (take GCM_NONCE_BYTES ciphertext)
       (take (length ciphertext - GCM_NONCE_BYTES - GCM_MAC_BYTES)
          (drop GCM_NONCE_BYTES ciphertext))
       (take GCM_MAC_BYTES
          (drop (GCM_NONCE_BYTES + (length ciphertext - GCM_NONCE_BYTES - GCM_MAC_BYTES))
             ciphertext)) = None"
    by (simp add: retrieveKey_input_def derived_key_def eval_defs tampered_world_def)
  from retrieveKey_failure_output [OF r] r i show ?thesis by blast
qed

subsection \<open>Retrieving under other credentials\<close>


lemma application_id_beginParams [simp]:
  "application_id (beginParams auth appId @ ps) = Some appId"
  by (simp add: beginParams_def)

lemma application_id_beginParams' [simp]:
  "application_id (beginParams auth appId) = Some appId"
  using application_id_beginParams [of auth appId "[]"] by simp




















subsection \<open>The second instance meets the contracts\<close>

lemmas strict_defs = strict_def strict_SHA512_def strict_generateKey_def strict_begin_def
  no_credentials_def guess_only_def







lemma strict_cipher_inverts: "cipher_inverts strict"
proof -
  have "length (take 15 key) = 15" if "key = resize 32 (take 15 key)" for key :: string
  proof -
    from that have "length key = 32" by (metis length_resize)
    then show ?thesis by simp
  qed
  then show ?thesis
    by (auto simp: cipher_inverts_def strict_def sample_def GCM_MAC_BYTES_def split: if_splits)
qed

lemma application_id_nonce [simp]:
  "application_id (ps @ [TAG_NONCE n]) = application_id ps"
  by (induction ps rule: application_id.induct) simp_all

lemma auth_token_nonce [simp]:
  "auth_token (ps @ [TAG_NONCE n]) = auth_token ps"
  by (induction ps rule: auth_token.induct) simp_all

lemma strict_service_inverts: "service_inverts strict"
  unfolding service_inverts_def
  by (auto simp: strict_def sample_def strict_begin_def sample_updateCompletely_def
      sample_finish_def split: list.splits if_splits KeyPurpose.splits)



lemmas strict_eval = eval_defs strict_defs auth_token.simps user_secure_id.simps




text \<open>
  The second instance stores and retrieves: the credentials of the store get the key
  back on either path, and so does, after a store under the token alone, the token
  with a password.
\<close>

lemma strict_retrieves:
  "retrieve_outcome strict ''d'' password_only ''junk''
     (world_after_store strict ''d'' password_only ''KEY'' empty_world) = Some (Inr True, ''KEY'')"
  "retrieve_outcome strict ''d'' token_and_password ''junk''
     (world_after_store strict ''d'' token_and_password ''KEY'' empty_world)
     = Some (Inr True, ''KEY'')"
  "retrieve_outcome strict ''d'' token_only ''junk''
     (world_after_store strict ''d'' token_only ''KEY'' empty_world) = Some (Inr True, ''KEY'')"
  "retrieve_outcome strict ''d'' token_and_guess ''junk''
     (world_after_store strict ''d'' token_only ''KEY'' empty_world) = Some (Inr True, ''KEY'')"
  by (simp_all add: strict_eval)


end
